theory Spec2Isabelle
  imports Complex_Main "HOL-Library.AList" "HOL-Library.Sublist"
begin

section \<open>Data model\<close>

text \<open>
  The analytics engine (\<^verbatim>\<open>src/analytics/clvCalculator.js\<close>) and the ETL pipeline
  (\<^verbatim>\<open>src/pipelines/etlPipeline.js\<close>) work on plain JavaScript objects. Each object shape
  is a record here. A JavaScript number is an exact rational (\<^typ>\<open>rat\<close>) or, where the
  code only ever holds whole numbers, an \<^typ>\<open>int\<close>; rounding of IEEE doubles is outside
  the model. A \<^verbatim>\<open>Date\<close> is its time value, the milliseconds since the epoch. A field that
  may be \<^verbatim>\<open>null\<close> has an option type.
\<close>

type_synonym date = int

datatype error = TypeError string | Error string

fun message :: "error \<Rightarrow> string" where
  "message (TypeError m) = m"
| "message (Error m) = m"

text \<open>
  Rows of the \<^verbatim>\<open>customers\<close> and \<^verbatim>\<open>orders\<close> tables, with the columns that the pipeline
  and the analytics engine read. An \<^verbatim>\<open>order\<close> is also the order object that
  \<^verbatim>\<open>calculateCustomerMetrics\<close> receives: the pipeline builds it with
  \<^verbatim>\<open>json_build_object\<close>, so its \<^verbatim>\<open>total_price\<close> is a JSON number.
\<close>

record customer =
  cust_id :: int
  cust_source_id :: string
  cust_source_type :: string
  cust_email :: "string option"
  cust_first_purchase_date :: "date option"
  cust_last_purchase_date :: "date option"

record line_item =
  li_source_product_id :: "string option"
  li_title :: "string option"
  li_quantity :: "int option"
  li_price :: "rat option"

record order =
  o_id :: int
  o_source_id :: string
  o_source_type :: string
  o_customer_id :: "int option"
  o_email :: "string option"
  o_total_price :: "rat option"
  o_processed_at :: "date option"
  o_source_name :: "string option"

record customer_metrics =
  customer_id :: int
  calculation_date :: date
  total_revenue :: rat
  total_orders :: nat
  average_order_value :: rat
  purchase_frequency :: rat
  customer_lifespan_days :: int
  customer_lifetime_value :: rat
  churn_probability :: rat
  days_since_last_purchase :: "int option"
  rfm_recency_score :: int
  rfm_frequency_score :: int
  rfm_monetary_score :: int
  customer_segment :: string

record rfm_scores =
  recency :: int
  frequency :: int
  monetary :: int
  combinedScore :: int

section \<open>JavaScript and library primitives\<close>

text \<open>
  \<^verbatim>\<open>x || d\<close> on a number that may be null: null and 0 are falsy and give \<open>d\<close>.
\<close>

definition num_or :: "rat option \<Rightarrow> rat \<Rightarrow> rat" where
  "num_or x d = (case x of None \<Rightarrow> d | Some v \<Rightarrow> if v = 0 then d else v)"

definition int_or :: "int option \<Rightarrow> int \<Rightarrow> int" where
  "int_or x d = (case x of None \<Rightarrow> d | Some v \<Rightarrow> if v = 0 then d else v)"

definition str_or :: "string option \<Rightarrow> string \<Rightarrow> string" where
  "str_or x d = (case x of None \<Rightarrow> d | Some v \<Rightarrow> if v = [] then d else v)"

text \<open>Truthiness of a numeric id that may be null: null and 0 are falsy.\<close>

definition truthy_id :: "int option \<Rightarrow> bool" where
  "truthy_id x = (case x of None \<Rightarrow> False | Some v \<Rightarrow> v \<noteq> 0)"

text \<open>\<^verbatim>\<open>new Date(x)\<close> on a date that may be null: \<^verbatim>\<open>new Date(null)\<close> is the epoch.\<close>

definition newDate :: "date option \<Rightarrow> date" where
  "newDate x = (case x of None \<Rightarrow> 0 | Some d \<Rightarrow> d)"

text \<open>
  \<^verbatim>\<open>differenceInDays\<close> of the date-fns library: the number of full days between two
  instants, truncated towards zero (the library's result in a zone whose offset does not
  change between the two instants).
\<close>

definition msPerDay :: int where
  "msPerDay = 86400000"

definition differenceInDays :: "date \<Rightarrow> date \<Rightarrow> int" where
  "differenceInDays dateLeft dateRight =
     (let ms = dateLeft - dateRight
      in if 0 \<le> ms then ms div msPerDay else - ((- ms) div msPerDay))"

text \<open>
  \<^verbatim>\<open>Date.prototype.toDateString\<close> prints the weekday, month, day and year of the local
  calendar day. Two dates print the same string exactly when they fall on the same local
  day, so the model keeps the number of that day. \<open>tz\<close> is the local zone: \<open>tz d\<close> is
  the offset of local time from UTC, in milliseconds, that is in force at the instant
  \<open>d\<close>, so a zone with daylight saving is one whose offset changes.
\<close>

definition toDateString :: "(date \<Rightarrow> int) \<Rightarrow> date \<Rightarrow> int" where
  "toDateString tz d = (d + tz d) div msPerDay"

section \<open>Customer analytics engine\<close>

definition calculateTotalRevenue :: "order list \<Rightarrow> rat" where
  "calculateTotalRevenue orders =
     foldl (\<lambda>sum order. sum + num_or (o_total_price order) 0) 0 orders"

definition calculateSimpleCLV :: "customer_metrics \<Rightarrow> rat" where
  "calculateSimpleCLV metrics =
     (let lifespanMonths = of_int (customer_lifespan_days metrics) / 30
      in average_order_value metrics * purchase_frequency metrics * lifespanMonths)"

definition calculatePredictiveCLV :: "customer_metrics \<Rightarrow> rat" where
  "calculatePredictiveCLV metrics =
     (let monthlyRevenue = average_order_value metrics * purchase_frequency metrics;
          retentionRate = 1 - churn_probability metrics;
          discountRate = 1 / 10 / 12
      in if retentionRate \<ge> 1 + discountRate then monthlyRevenue * 12 * 3
         else monthlyRevenue * (retentionRate / (1 + discountRate - retentionRate)))"

text \<open>
  \<^verbatim>\<open>calculateChurnProbability\<close> reads \<^verbatim>\<open>metrics.days_since_last_purchase\<close>; a null
  there compares as 0.
\<close>

definition calculateChurnProbability :: "customer_metrics \<Rightarrow> rat" where
  "calculateChurnProbability metrics =
     (let daysSinceLastPurchase = (case days_since_last_purchase metrics of None \<Rightarrow> 0 | Some d \<Rightarrow> d)
      in if daysSinceLastPurchase < 30 then 5 / 100
         else if daysSinceLastPurchase < 60 then 15 / 100
         else if daysSinceLastPurchase < 90 then 25 / 100
         else if daysSinceLastPurchase < 180 then 45 / 100
         else if daysSinceLastPurchase < 365 then 70 / 100
         else 90 / 100)"

text \<open>
  \<^verbatim>\<open>calculateRFMScores\<close> reads the last element of \<open>orders\<close>; on an empty array that is
  \<^verbatim>\<open>undefined\<close> and reading its \<^verbatim>\<open>processed_at\<close> throws.
\<close>

definition calculateRFMScores :: "customer \<Rightarrow> order list \<Rightarrow> date \<Rightarrow> error + rfm_scores" where
  "calculateRFMScores customer orders calculationDate =
     (if orders = [] then Inl (TypeError ''Cannot read properties of undefined'')
      else
        let lastOrderDate = newDate (o_processed_at (last orders));
            daysSinceLastOrder = differenceInDays calculationDate lastOrderDate;
            recencyScore =
              (if daysSinceLastOrder \<le> 30 then 5
               else if daysSinceLastOrder \<le> 60 then 4
               else if daysSinceLastOrder \<le> 90 then 3
               else if daysSinceLastOrder \<le> 180 then 2
               else 1);
            orderCount = length orders;
            frequencyScore =
              (if orderCount \<ge> 20 then 5
               else if orderCount \<ge> 10 then 4
               else if orderCount \<ge> 5 then 3
               else if orderCount \<ge> 2 then 2
               else 1);
            totalSpent = calculateTotalRevenue orders;
            monetaryScore =
              (if totalSpent \<ge> 5000 then 5
               else if totalSpent \<ge> 2000 then 4
               else if totalSpent \<ge> 500 then 3
               else if totalSpent \<ge> 100 then 2
               else 1)
        in Inr \<lparr> recency = recencyScore, frequency = frequencyScore,
                 monetary = monetaryScore,
                 combinedScore = recencyScore + frequencyScore + monetaryScore \<rparr>)"

definition determineSegment :: "rfm_scores \<Rightarrow> string" where
  "determineSegment rfmScores =
     (if recency rfmScores \<ge> 4 \<and> frequency rfmScores \<ge> 4 \<and> monetary rfmScores \<ge> 4
        then ''Champions''
      else if frequency rfmScores \<ge> 3 \<and> monetary rfmScores \<ge> 3 \<and> combinedScore rfmScores \<ge> 9
        then ''Loyal Customers''
      else if recency rfmScores \<ge> 3 \<and> frequency rfmScores \<ge> 2 \<and> combinedScore rfmScores \<ge> 7
        then ''Potential Loyalists''
      else if recency rfmScores \<ge> 4 \<and> frequency rfmScores \<le> 2
        then ''New Customers''
      else if recency rfmScores \<le> 2 \<and> frequency rfmScores \<ge> 3 \<and> monetary rfmScores \<ge> 3
        then ''At Risk''
      else if recency rfmScores \<le> 2 \<and> monetary rfmScores \<ge> 4
        then ''Cannot Lose''
      else if recency rfmScores \<le> 2 \<and> frequency rfmScores \<le> 2 \<and> monetary rfmScores \<le> 2
        then ''Hibernating''
      else if monetary rfmScores \<le> 2 \<and> frequency rfmScores \<ge> 3
        then ''Price Sensitive''
      else ''Regular'')"

definition getEmptyMetrics :: "int \<Rightarrow> date \<Rightarrow> customer_metrics" where
  "getEmptyMetrics customerId calculationDate =
     \<lparr> customer_id = customerId,
       calculation_date = calculationDate,
       total_revenue = 0,
       total_orders = 0,
       average_order_value = 0,
       purchase_frequency = 0,
       customer_lifespan_days = 0,
       customer_lifetime_value = 0,
       churn_probability = 1,
       days_since_last_purchase = None,
       rfm_recency_score = 1,
       rfm_frequency_score = 1,
       rfm_monetary_score = 1,
       customer_segment = ''Inactive'' \<rparr>"

text \<open>
  \<^verbatim>\<open>calculateCustomerMetrics(customer, orders, calculationDate)\<close>. The \<open>orders\<close>
  argument may be null (\<open>None\<close>): \<^verbatim>\<open>orders.filter\<close> then throws a TypeError, which
  the surrounding \<^verbatim>\<open>try/catch\<close> logs and throws again. The metrics object is filled
  in field by field, in the order of the source; each helper reads the object as it is at
  the moment of the call. \<^verbatim>\<open>Array.prototype.sort\<close> is stable, as \<^const>\<open>sort_key\<close> is.
\<close>

definition calculateCustomerMetrics ::
  "customer \<Rightarrow> order list option \<Rightarrow> date \<Rightarrow> error + customer_metrics" where
  "calculateCustomerMetrics customer orders calculationDate =
     (case orders of
        None \<Rightarrow> Inl (TypeError ''Cannot read properties of null'')
      | Some os \<Rightarrow>
          let customerOrders = filter (\<lambda>ord. o_customer_id ord = Some (cust_id customer)) os
          in if length customerOrders = 0
             then Inr (getEmptyMetrics (cust_id customer) calculationDate)
             else
               let customerOrders = sort_key (\<lambda>ord. newDate (o_processed_at ord)) customerOrders;
                   metrics = \<lparr> customer_id = cust_id customer,
                               calculation_date = calculationDate,
                               total_revenue = calculateTotalRevenue customerOrders,
                               total_orders = length customerOrders,
                               average_order_value = 0,
                               purchase_frequency = 0,
                               customer_lifespan_days = 0,
                               customer_lifetime_value = 0,
                               churn_probability = 0,
                               days_since_last_purchase = Some 0,
                               rfm_recency_score = 0,
                               rfm_frequency_score = 0,
                               rfm_monetary_score = 0,
                               customer_segment = '''' \<rparr>;
                   metrics = metrics\<lparr> average_order_value :=
                               total_revenue metrics / of_nat (total_orders metrics) \<rparr>;
                   firstOrderDate = newDate (o_processed_at (hd customerOrders));
                   lastOrderDate = newDate (o_processed_at (last customerOrders));
                   metrics = metrics\<lparr> customer_lifespan_days :=
                               (let d = differenceInDays lastOrderDate firstOrderDate
                                in if d = 0 then 1 else d) \<rparr>;
                   metrics = metrics\<lparr> days_since_last_purchase :=
                               Some (differenceInDays calculationDate lastOrderDate) \<rparr>;
                   monthsActive = max (of_int (customer_lifespan_days metrics) / 30) 1;
                   metrics = metrics\<lparr> purchase_frequency :=
                               of_nat (total_orders metrics) / monthsActive \<rparr>;
                   simpleCLV = calculateSimpleCLV metrics;
                   predictiveCLV = calculatePredictiveCLV metrics;
                   metrics = metrics\<lparr> customer_lifetime_value :=
                               (simpleCLV + predictiveCLV) / 2 \<rparr>;
                   metrics = metrics\<lparr> churn_probability := calculateChurnProbability metrics \<rparr>
               in case calculateRFMScores customer customerOrders calculationDate of
                    Inl e \<Rightarrow> Inl e
                  | Inr rfmScores \<Rightarrow>
                      Inr (metrics\<lparr> rfm_recency_score := recency rfmScores,
                                    rfm_frequency_score := frequency rfmScores,
                                    rfm_monetary_score := monetary rfmScores,
                                    customer_segment := determineSegment rfmScores \<rparr>))"

subsection \<open>Daily metrics\<close>

text \<open>
  \<^verbatim>\<open>calculateDailyMetrics\<close> receives order objects of another shape than
  \<^verbatim>\<open>calculateCustomerMetrics\<close>. The repository's tests give them a number as
  \<^verbatim>\<open>total_price\<close>. The pipeline gives it the rows of \<^verbatim>\<open>SELECT o.*\<close>, in which
  node-postgres returns the \<^verbatim>\<open>DECIMAL(15,2)\<close> column \<^verbatim>\<open>total_price\<close> as a string such as
  \<^verbatim>\<open>"100.00"\<close>. So the total of such an order is a JavaScript value that is a number or
  a string, and the sums that the function builds from it are such values too.
\<close>

datatype jsval = Num rat | Str string

record order_row =
  r_id :: int
  r_customer_id :: "int option"
  r_total_price :: "jsval option"
  r_processed_at :: "date option"
  r_source_name :: "string option"
  r_line_items :: "line_item list option"

text \<open>
  The decimal digits of a natural number, and the digits after the point of a fraction
  below 1, at most \<open>k\<close> of them.
\<close>

definition digit_char :: "nat \<Rightarrow> char" where
  "digit_char n = ''0123456789'' ! (n mod 10)"

function show_nat :: "nat \<Rightarrow> string" where
  "show_nat n = (if n < 10 then [digit_char n] else show_nat (n div 10) @ [digit_char (n mod 10)])"
  by pat_completeness auto
termination
  by (relation "measure id") auto

fun frac_digits :: "nat \<Rightarrow> rat \<Rightarrow> string" where
  "frac_digits 0 f = []"
| "frac_digits (Suc k) f =
     (if f = 0 then []
      else let d = nat \<lfloor>f * 10\<rfloor> in digit_char d # frac_digits k (f * 10 - of_nat d))"

text \<open>
  The text of a number, as string concatenation converts it: the digits of an integer,
  with a point and the decimal places of a fraction. This is the runtime's text for the
  integers below \<open>10\<^sup>2\<^sup>1\<close> and for the sums of amounts with two decimal places; a number of
  the model that no double equals has no text in the runtime.
\<close>

definition number_text :: "rat \<Rightarrow> string" where
  "number_text v =
     (let a = \<bar>v\<bar>;
          n = nat \<lfloor>a\<rfloor>;
          f = a - of_nat n
      in (if v < 0 then ''-'' else []) @ show_nat n
         @ (if f = 0 then [] else ''.'' @ frac_digits 17 f))"

text \<open>
  A \<^verbatim>\<open>DECIMAL(15,2)\<close> column holds its value rounded to two places, halves away from
  zero, and the database prints it with both places.
\<close>

definition cents :: "rat \<Rightarrow> int" where
  "cents v = (if 0 \<le> v then \<lfloor>v * 100 + 1 / 2\<rfloor> else - \<lfloor>- v * 100 + 1 / 2\<rfloor>)"

definition decimal2 :: "rat \<Rightarrow> rat" where
  "decimal2 v = of_int (cents v) / 100"

definition decimal_text :: "rat \<Rightarrow> string" where
  "decimal_text v =
     (let c = cents v;
          a = nat \<bar>c\<bar>
      in (if c < 0 then ''-'' else []) @ show_nat (a div 100) @ ''.''
         @ [digit_char (a mod 100 div 10), digit_char (a mod 10)])"

text \<open>
  Reading a decimal numeral: an optional sign, digits, and optionally a point and more
  digits, with at least one digit in all; anything else is no numeral. This is how
  \<^verbatim>\<open>Number("...")\<close> reads, and what the database accepts as input of type
  \<^verbatim>\<open>numeric\<close>, on the texts made of digits, points and signs, which are the texts that
  concatenating amounts gives. Exponents, blanks, hexadecimal numerals and the names of
  the infinities are not read.
\<close>

definition is_digit :: "char \<Rightarrow> bool" where
  "is_digit c = (c \<in> set ''0123456789'')"

definition digit_value :: "char \<Rightarrow> nat" where
  "digit_value c = length (takeWhile (\<lambda>d. d \<noteq> c) ''0123456789'')"

definition digits_value :: "string \<Rightarrow> nat" where
  "digits_value ds = foldl (\<lambda>n c. 10 * n + digit_value c) 0 ds"

definition parse_decimal :: "string \<Rightarrow> rat option" where
  "parse_decimal s =
     (let (negative, body) =
            (case s of
               [] \<Rightarrow> (False, [])
             | c # cs \<Rightarrow> if c = CHR ''-'' then (True, cs)
                         else if c = CHR ''+'' then (False, cs) else (False, s));
          ip = takeWhile is_digit body;
          rest = dropWhile is_digit body;
          (fp, tail) =
            (case rest of
               [] \<Rightarrow> ([], [])
             | c # cs \<Rightarrow> if c = CHR ''.'' then (takeWhile is_digit cs, dropWhile is_digit cs)
                         else ([], rest))
      in if tail \<noteq> [] \<or> (ip = [] \<and> fp = []) then None
         else Some ((if negative then - 1 else 1)
                    * (of_nat (digits_value ip) + of_nat (digits_value fp) / 10 ^ length fp)))"

text \<open>
  \<^verbatim>\<open>x || 0\<close>: null, the number 0 and the empty string are falsy. \<^verbatim>\<open>a + b\<close>: the sum of
  two numbers, and otherwise the concatenation of the two texts. \<^verbatim>\<open>a / n\<close> converts a
  string to a number first; \<open>None\<close> stands for \<^verbatim>\<open>NaN\<close>.
\<close>

definition js_or_zero :: "jsval option \<Rightarrow> jsval" where
  "js_or_zero x =
     (case x of
        None \<Rightarrow> Num 0
      | Some (Num v) \<Rightarrow> Num v
      | Some (Str s) \<Rightarrow> if s = [] then Num 0 else Str s)"

fun to_text :: "jsval \<Rightarrow> string" where
  "to_text (Num v) = number_text v"
| "to_text (Str s) = s"

fun js_add :: "jsval \<Rightarrow> jsval \<Rightarrow> jsval" where
  "js_add (Num x) (Num y) = Num (x + y)"
| "js_add a b = Str (to_text a @ to_text b)"

fun js_to_number :: "jsval \<Rightarrow> rat option" where
  "js_to_number (Num v) = Some v"
| "js_to_number (Str s) = (if s = [] then Some 0 else parse_decimal s)"

text \<open>
  The object returned by \<^verbatim>\<open>calculateDailyMetrics\<close>. \<open>dm_source_type\<close> is the
  \<^verbatim>\<open>source_type\<close> property that the pipeline adds afterwards; the calculator leaves it
  undefined. \<^verbatim>\<open>revenue_by_source\<close> is an object keyed by source name, a map here.
  \<^verbatim>\<open>top_selling_products\<close> and the \<^verbatim>\<open>productSales\<close> table it is sorted from feed no other
  field and are left out.
\<close>

record daily_metrics =
  metric_date :: date
  dm_total_revenue :: jsval
  dm_total_orders :: nat
  total_customers :: nat
  new_customers :: nat
  returning_customers :: nat
  dm_average_order_value :: "rat option"
  total_products_sold :: int
  revenue_by_source :: "string \<rightharpoonup> jsval"
  dm_source_type :: "string option"

text \<open>
  What the \<^verbatim>\<open>dayOrders.forEach\<close> loop updates: the running revenue, the \<^verbatim>\<open>Set\<close> of
  customer ids (its elements in insertion order), the \<^verbatim>\<open>customerOrderCounts\<close> object
  (its entries, an association list), the revenue per source and the number of products.
\<close>

record daily_acc =
  acc_total_revenue :: jsval
  acc_total_customers :: "int list"
  acc_customerOrderCounts :: "(int \<times> nat) list"
  acc_revenue_by_source :: "string \<rightharpoonup> jsval"
  acc_total_products_sold :: int

definition set_add :: "'a \<Rightarrow> 'a list \<Rightarrow> 'a list" where
  "set_add x xs = (if x \<in> set xs then xs else xs @ [x])"

definition item_step :: "daily_acc \<Rightarrow> line_item \<Rightarrow> daily_acc" where
  "item_step acc item =
     acc\<lparr> acc_total_products_sold := acc_total_products_sold acc + int_or (li_quantity item) 0 \<rparr>"

text \<open>
  The body of the loop for one order. \<^verbatim>\<open>if (order.customer_id)\<close> is a truthiness test:
  it skips an order whose customer id is null or 0.
\<close>

definition daily_step :: "daily_acc \<Rightarrow> order_row \<Rightarrow> daily_acc" where
  "daily_step acc ord =
     (let acc = acc\<lparr> acc_total_revenue :=
                  js_add (acc_total_revenue acc) (js_or_zero (r_total_price ord)) \<rparr>;
          acc = (case r_customer_id ord of
                   None \<Rightarrow> acc
                 | Some cid \<Rightarrow>
                     if cid = 0 then acc
                     else acc\<lparr> acc_total_customers := set_add cid (acc_total_customers acc),
                               acc_customerOrderCounts :=
                                 AList.update cid
                                   ((case map_of (acc_customerOrderCounts acc) cid of
                                       None \<Rightarrow> 0 | Some n \<Rightarrow> n) + 1)
                                   (acc_customerOrderCounts acc) \<rparr>);
          source = str_or (r_source_name ord) ''direct'';
          acc = acc\<lparr> acc_revenue_by_source :=
                  (acc_revenue_by_source acc)
                    (source \<mapsto> js_add (js_or_zero (acc_revenue_by_source acc source))
                                       (js_or_zero (r_total_price ord))) \<rparr>
      in case r_line_items ord of
           None \<Rightarrow> acc
         | Some items \<Rightarrow> foldl item_step acc items)"

text \<open>
  \<^verbatim>\<open>calculateDailyMetrics(orders, products, calculationDate)\<close>; \<open>tz\<close> is the local
  zone that \<^verbatim>\<open>toDateString\<close> prints in. \<open>products\<close> is not read.
\<close>

definition calculateDailyMetrics ::
  "(date \<Rightarrow> int) \<Rightarrow> order_row list \<Rightarrow> 'p \<Rightarrow> date \<Rightarrow> daily_metrics" where
  "calculateDailyMetrics tz orders products calculationDate =
     (let dayOrders =
            filter (\<lambda>ord. toDateString tz (newDate (r_processed_at ord))
                            = toDateString tz calculationDate) orders;
          acc = foldl daily_step
                  \<lparr> acc_total_revenue = Num 0, acc_total_customers = [],
                    acc_customerOrderCounts = [], acc_revenue_by_source = Map.empty,
                    acc_total_products_sold = 0 \<rparr>
                  dayOrders;
          totalOrders = length dayOrders;
          averageOrderValue =
            (if totalOrders > 0
             then map_option (\<lambda>v. v / of_nat totalOrders) (js_to_number (acc_total_revenue acc))
             else Some 0);
          (newCustomers, returningCustomers) =
            foldl (\<lambda>(n, r) (customerId, count). if count = 1 then (n + 1, r) else (n, r + 1))
                  (0, 0) (acc_customerOrderCounts acc)
      in \<lparr> metric_date = calculationDate,
           dm_total_revenue = acc_total_revenue acc,
           dm_total_orders = totalOrders,
           total_customers = length (acc_total_customers acc),
           new_customers = newCustomers,
           returning_customers = returningCustomers,
           dm_average_order_value = averageOrderValue,
           total_products_sold = acc_total_products_sold acc,
           revenue_by_source = acc_revenue_by_source acc,
           dm_source_type = None \<rparr>)"

section \<open>Persistence\<close>

text \<open>
  Further rows of the database (\<^verbatim>\<open>src/db/schema.sql\<close>) and the objects that the
  transformer hands to the loader. A transformed entity has no \<^verbatim>\<open>id\<close> yet, and a
  transformed order has no \<^verbatim>\<open>customer_id\<close>. \<open>ti_source_order_id\<close> is the property that
  \<^verbatim>\<open>transformData\<close> adds to an item; \<open>ti_source_type\<close> is the property that
  \<^verbatim>\<open>insertOrderItems\<close> reads from it.
\<close>

record product =
  prod_id :: int
  prod_source_id :: string
  prod_source_type :: string
  prod_title :: "string option"

record order_item =
  oi_id :: int
  oi_order_id :: int
  oi_product_id :: "int option"
  oi_source_product_id :: string
  oi_title :: "string option"
  oi_quantity :: "int option"
  oi_price :: "rat option"

record t_customer =
  tc_source_id :: string
  tc_source_type :: string
  tc_email :: "string option"

record t_product =
  tp_source_id :: string
  tp_source_type :: string
  tp_title :: "string option"

record t_order =
  to_source_id :: string
  to_source_type :: string
  to_email :: "string option"
  to_total_price :: rat
  to_processed_at :: "date option"
  to_source_name :: "string option"

record t_item =
  ti_source_order_id :: "string option"
  ti_source_type :: "string option"
  ti_source_product_id :: string
  ti_title :: "string option"
  ti_quantity :: int
  ti_price :: rat

text \<open>The result of a batch: the entities stored, with their ids, and the failures.\<close>

record 'a batch_result =
  inserted :: "('a \<times> int) list"
  failed :: "('a \<times> string) list"

record load_results =
  lr_customers :: "t_customer batch_result"
  lr_products :: "t_product batch_result"
  lr_orders :: "t_order batch_result"
  lr_orderItems :: "t_item batch_result"
  totalLoaded :: nat

record etl_log =
  pipeline_name :: string
  log_source_type :: string
  status :: string
  records_extracted :: nat
  records_transformed :: nat
  records_loaded :: nat
  started_at :: date
  log_metadata :: "load_results option"
  error_message :: "string option"
  completed_at :: "date option"
  duration_seconds :: "int option"

text \<open>
  The state that a run changes: the tables, the sequences behind the \<^verbatim>\<open>SERIAL\<close> ids, the
  number of statements sent to the database so far and the number of clock readings so
  far.
\<close>

record world =
  customers_tbl :: "customer list"
  products_tbl :: "product list"
  orders_tbl :: "order list"
  order_items_tbl :: "order_item list"
  customer_metrics_tbl :: "customer_metrics list"
  daily_metrics_tbl :: "daily_metrics list"
  etl_logs_tbl :: "etl_log list"
  customers_seq :: int
  products_seq :: int
  orders_seq :: int
  order_items_seq :: int
  queries :: nat
  clock_reads :: nat

text \<open>
  A connector of a source. \<^verbatim>\<open>testConnection\<close> reports a failure by returning false;
  the three fetch operations return raw platform records or throw.
\<close>

record 'raw connector =
  testConnection :: bool
  getCustomers :: "date option \<Rightarrow> error + 'raw list"
  getProducts :: "date option \<Rightarrow> error + 'raw list"
  getOrders :: "date option \<Rightarrow> error + 'raw list"

text \<open>
  The pipeline object and its surroundings: the \<^verbatim>\<open>enabled\<close> flags of the configuration,
  the connectors by source name, the transformer's operations on raw records (which are
  untyped platform data, a type parameter here) and the raw order's \<^verbatim>\<open>line_items\<close>.
  What the run cannot decide is given by three more fields: \<open>fault n\<close> is the message
  with which the database rejects the \<open>n\<close>-th statement sent to it, if it does;
  \<open>clock n\<close> is the \<open>n\<close>-th reading of the clock; \<open>zone\<close> is the local zone, the
  offset of local time from UTC at each instant.
\<close>

record 'raw etl =
  enabled :: "string \<Rightarrow> bool"
  connectors :: "string \<Rightarrow> 'raw connector option"
  transformCustomer :: "'raw \<Rightarrow> string \<Rightarrow> error + t_customer"
  transformProduct :: "'raw \<Rightarrow> string \<Rightarrow> error + t_product"
  transformOrder :: "'raw \<Rightarrow> string \<Rightarrow> error + t_order"
  transformOrderItem :: "'raw \<Rightarrow> string \<Rightarrow> error + t_item"
  raw_line_items :: "'raw \<Rightarrow> 'raw list option"
  fault :: "nat \<Rightarrow> string option"
  clock :: "nat \<Rightarrow> date"
  zone :: "date \<Rightarrow> int"

subsection \<open>Effects\<close>

text \<open>
  An asynchronous operation takes the state and returns the new state with either a value
  or the error thrown. What was written before a throw stays written.
\<close>

type_synonym 'a io = "world \<Rightarrow> (error + 'a) \<times> world"

definition io_return :: "'a \<Rightarrow> 'a io" where
  "io_return x w = (Inr x, w)"

definition io_throw :: "error \<Rightarrow> 'a io" where
  "io_throw e w = (Inl e, w)"

definition io_bind :: "'a io \<Rightarrow> ('a \<Rightarrow> 'b io) \<Rightarrow> 'b io" where
  "io_bind m f w = (case m w of (Inl e, w') \<Rightarrow> (Inl e, w') | (Inr x, w') \<Rightarrow> f x w')"

definition io_catch :: "'a io \<Rightarrow> (error \<Rightarrow> 'a io) \<Rightarrow> 'a io" where
  "io_catch m handler w = (case m w of (Inl e, w') \<Rightarrow> handler e w' | (Inr x, w') \<Rightarrow> (Inr x, w'))"

definition io_lift :: "error + 'a \<Rightarrow> 'a io" where
  "io_lift r w = (r, w)"

text \<open>A \<^verbatim>\<open>for ... of\<close> loop whose body may throw.\<close>

fun io_forEach :: "'a list \<Rightarrow> ('a \<Rightarrow> unit io) \<Rightarrow> unit io" where
  "io_forEach [] body = io_return ()"
| "io_forEach (x # xs) body = io_bind (body x) (\<lambda>_. io_forEach xs body)"

text \<open>A loop that threads an accumulator through its body.\<close>

fun io_foldl :: "('b \<Rightarrow> 'a \<Rightarrow> 'b io) \<Rightarrow> 'b \<Rightarrow> 'a list \<Rightarrow> 'b io" where
  "io_foldl body acc [] = io_return acc"
| "io_foldl body acc (x # xs) = io_bind (body acc x) (\<lambda>acc'. io_foldl body acc' xs)"

text \<open>\<^verbatim>\<open>new Date()\<close> and \<^verbatim>\<open>Date.now()\<close> read the clock.\<close>

definition now :: "'raw etl \<Rightarrow> date io" where
  "now p w = (Inr (clock p (clock_reads w)), w\<lparr> clock_reads := clock_reads w + 1 \<rparr>)"

text \<open>
  \<^verbatim>\<open>pool.query\<close>: the statement is counted, then it either fails with the database's
  message or runs on the tables.
\<close>

definition pool_query :: "'raw etl \<Rightarrow> (world \<Rightarrow> 'a \<times> world) \<Rightarrow> 'a io" where
  "pool_query p statement w =
     (let n = queries w;
          w = w\<lparr> queries := n + 1 \<rparr>
      in case fault p n of
           Some msg \<Rightarrow> (Inl (Error msg), w)
         | None \<Rightarrow> (case statement w of (r, w') \<Rightarrow> (Inr r, w')))"

text \<open>\<^verbatim>\<open>String.prototype.toLowerCase\<close> on ASCII letters.\<close>

definition toLowerCase :: "string \<Rightarrow> string" where
  "toLowerCase s =
     map (\<lambda>c. let n = (of_char c :: nat) in if 65 \<le> n \<and> n \<le> 90 then char_of (n + 32) else c) s"

subsection \<open>The loader\<close>

text \<open>
  The methods of \<^verbatim>\<open>PostgresLoader\<close> (\<^verbatim>\<open>src/db/postgresLoader.js\<close>). Each SQL statement is
  the function on the tables that the statement denotes. An \<^verbatim>\<open>INSERT\<close> takes the next
  value of the table's sequence, also when it ends in the \<^verbatim>\<open>ON CONFLICT\<close> update. A
  \<^verbatim>\<open>LIMIT 1\<close> without an order takes the first row of the table.
\<close>

definition upsertCustomer :: "'raw etl \<Rightarrow> t_customer \<Rightarrow> int io" where
  "upsertCustomer p customer =
     pool_query p (\<lambda>w.
       let fresh = customers_seq w + 1;
           w = w\<lparr> customers_seq := fresh \<rparr>;
           conflict = (\<lambda>r. cust_source_id r = tc_source_id customer
                            \<and> cust_source_type r = tc_source_type customer)
       in case find conflict (customers_tbl w) of
            Some r \<Rightarrow>
              (cust_id r,
               w\<lparr> customers_tbl :=
                    map (\<lambda>r. if conflict r
                              then r\<lparr> cust_email := tc_email customer,
                                      cust_last_purchase_date := None \<rparr>
                              else r) (customers_tbl w) \<rparr>)
          | None \<Rightarrow>
              (fresh,
               w\<lparr> customers_tbl := customers_tbl w @
                    [\<lparr> cust_id = fresh, cust_source_id = tc_source_id customer,
                       cust_source_type = tc_source_type customer,
                       cust_email = tc_email customer,
                       cust_first_purchase_date = None,
                       cust_last_purchase_date = None \<rparr>] \<rparr>))"

definition upsertProduct :: "'raw etl \<Rightarrow> t_product \<Rightarrow> int io" where
  "upsertProduct p product =
     pool_query p (\<lambda>w.
       let fresh = products_seq w + 1;
           w = w\<lparr> products_seq := fresh \<rparr>;
           conflict = (\<lambda>r. prod_source_id r = tp_source_id product
                            \<and> prod_source_type r = tp_source_type product)
       in case find conflict (products_tbl w) of
            Some r \<Rightarrow>
              (prod_id r,
               w\<lparr> products_tbl :=
                    map (\<lambda>r. if conflict r then r\<lparr> prod_title := tp_title product \<rparr> else r)
                        (products_tbl w) \<rparr>)
          | None \<Rightarrow>
              (fresh,
               w\<lparr> products_tbl := products_tbl w @
                    [\<lparr> prod_id = fresh, prod_source_id = tp_source_id product,
                       prod_source_type = tp_source_type product,
                       prod_title = tp_title product \<rparr>] \<rparr>))"

text \<open>
  \<^verbatim>\<open>upsertCustomerBatch\<close> and \<^verbatim>\<open>upsertProductBatch\<close> are the same loop: each entity is
  tried on its own, and a failure is recorded with its message.
\<close>

definition upsert_batch :: "('a \<Rightarrow> int io) \<Rightarrow> 'a list \<Rightarrow> 'a batch_result io" where
  "upsert_batch upsert items =
     io_foldl
       (\<lambda>res item.
          io_catch
            (io_bind (upsert item)
               (\<lambda>ident. io_return (res\<lparr> inserted := inserted res @ [(item, ident)] \<rparr>)))
            (\<lambda>err. io_return (res\<lparr> failed := failed res @ [(item, message err)] \<rparr>)))
       \<lparr> inserted = [], failed = [] \<rparr> items"

definition upsertCustomerBatch :: "'raw etl \<Rightarrow> t_customer list \<Rightarrow> t_customer batch_result io" where
  "upsertCustomerBatch p customers = upsert_batch (upsertCustomer p) customers"

definition upsertProductBatch :: "'raw etl \<Rightarrow> t_product list \<Rightarrow> t_product batch_result io" where
  "upsertProductBatch p products = upsert_batch (upsertProduct p) products"

text \<open>
  \<^verbatim>\<open>upsertOrder(order, customerId)\<close> stores \<^verbatim>\<open>customerId || order.customer_id\<close>; the
  transformed order has no \<^verbatim>\<open>customer_id\<close>, so a falsy \<open>customerId\<close> stores null. The
  column \<^verbatim>\<open>total_price\<close> is \<^verbatim>\<open>DECIMAL(15,2)\<close> and keeps the total rounded to two places.
\<close>

definition upsertOrder :: "'raw etl \<Rightarrow> t_order \<Rightarrow> int option \<Rightarrow> int io" where
  "upsertOrder p ord customerId =
     pool_query p (\<lambda>w.
       let fresh = orders_seq w + 1;
           w = w\<lparr> orders_seq := fresh \<rparr>;
           cid = (if truthy_id customerId then customerId else None);
           conflict = (\<lambda>r. o_source_id r = to_source_id ord
                            \<and> o_source_type r = to_source_type ord)
       in case find conflict (orders_tbl w) of
            Some r \<Rightarrow>
              (o_id r,
               w\<lparr> orders_tbl :=
                    map (\<lambda>r. if conflict r
                              then r\<lparr> o_customer_id := cid, o_email := to_email ord,
                                      o_total_price := Some (decimal2 (to_total_price ord)),
                                      o_processed_at := to_processed_at ord,
                                      o_source_name := to_source_name ord \<rparr>
                              else r) (orders_tbl w) \<rparr>)
          | None \<Rightarrow>
              (fresh,
               w\<lparr> orders_tbl := orders_tbl w @
                    [\<lparr> o_id = fresh, o_source_id = to_source_id ord,
                       o_source_type = to_source_type ord, o_customer_id = cid,
                       o_email = to_email ord,
                       o_total_price = Some (decimal2 (to_total_price ord)),
                       o_processed_at = to_processed_at ord,
                       o_source_name = to_source_name ord \<rparr>] \<rparr>))"

text \<open>
  \<^verbatim>\<open>findProductId\<close> and \<^verbatim>\<open>findCustomerId\<close> return null on a falsy argument, on no row
  and on a database error. A null \<open>sourceType\<close> matches no row.
\<close>

definition findProductId :: "'raw etl \<Rightarrow> string \<Rightarrow> string option \<Rightarrow> int option io" where
  "findProductId p sourceProductId sourceType =
     (if sourceProductId = [] then io_return None
      else io_catch
             (io_bind
                (pool_query p (\<lambda>w.
                   (find (\<lambda>r. prod_source_id r = sourceProductId
                               \<and> Some (prod_source_type r) = sourceType) (products_tbl w), w)))
                (\<lambda>row. io_return
                   (case row of None \<Rightarrow> None
                    | Some r \<Rightarrow> if prod_id r = 0 then None else Some (prod_id r))))
             (\<lambda>err. io_return None))"

definition findCustomerId :: "'raw etl \<Rightarrow> string option \<Rightarrow> string \<Rightarrow> int option io" where
  "findCustomerId p email sourceType =
     (case email of
        None \<Rightarrow> io_return None
      | Some e \<Rightarrow>
          if e = [] then io_return None
          else io_catch
                 (io_bind
                    (pool_query p (\<lambda>w.
                       (find (\<lambda>r. cust_email r = Some (toLowerCase e)
                                   \<and> cust_source_type r = sourceType) (customers_tbl w), w)))
                    (\<lambda>row. io_return
                       (case row of None \<Rightarrow> None
                        | Some r \<Rightarrow> if cust_id r = 0 then None else Some (cust_id r))))
                 (\<lambda>err. io_return None))"

text \<open>
  \<^verbatim>\<open>insertOrderItems\<close>: an item whose insert fails is logged and left out of the result.
\<close>

definition insertOrderItems :: "'raw etl \<Rightarrow> t_item list \<Rightarrow> int \<Rightarrow> (t_item \<times> int) list io" where
  "insertOrderItems p orderItems orderId =
     (if orderItems = [] then io_return []
      else io_foldl
             (\<lambda>insertedItems item.
                io_bind (findProductId p (ti_source_product_id item) (ti_source_type item))
                  (\<lambda>productId.
                     io_catch
                       (io_bind
                          (pool_query p (\<lambda>w.
                             let fresh = order_items_seq w + 1
                             in (fresh,
                                 w\<lparr> order_items_seq := fresh,
                                     order_items_tbl := order_items_tbl w @
                                       [\<lparr> oi_id = fresh, oi_order_id = orderId,
                                          oi_product_id = productId,
                                          oi_source_product_id = ti_source_product_id item,
                                          oi_title = ti_title item,
                                          oi_quantity = Some (ti_quantity item),
                                          oi_price = Some (ti_price item) \<rparr>] \<rparr>)))
                          (\<lambda>ident. io_return (insertedItems @ [(item, ident)])))
                       (\<lambda>err. io_return insertedItems)))
             [] orderItems)"

text \<open>
  The two metrics tables are keyed by a \<^verbatim>\<open>DATE\<close> column: the calendar day of the date
  that the pipeline passes. An upsert replaces the row of the same key or appends.
\<close>

definition upsertCustomerMetrics :: "'raw etl \<Rightarrow> customer_metrics \<Rightarrow> unit io" where
  "upsertCustomerMetrics p metrics =
     pool_query p (\<lambda>w.
       let conflict = (\<lambda>r. customer_id r = customer_id metrics
                            \<and> toDateString (zone p) (calculation_date r)
                                = toDateString (zone p) (calculation_date metrics))
       in ((), w\<lparr> customer_metrics_tbl :=
                    (if list_ex conflict (customer_metrics_tbl w)
                     then map (\<lambda>r. if conflict r then metrics else r) (customer_metrics_tbl w)
                     else customer_metrics_tbl w @ [metrics]) \<rparr>))"

text \<open>
  \<^verbatim>\<open>upsertDailyMetrics\<close> passes \<^verbatim>\<open>metrics.total_revenue\<close> as a parameter of a
  \<^verbatim>\<open>DECIMAL(15,2)\<close> column. A number is accepted. A string is accepted when it is a
  numeral, and the database rejects the statement otherwise, with the message that
  \<open>invalid_numeric\<close> builds. The row keeps the value of the parameter.
\<close>

definition invalid_numeric :: "string \<Rightarrow> string" where
  "invalid_numeric s =
     ''invalid input syntax for type numeric: '' @ [CHR 0x22] @ s @ [CHR 0x22]"

definition numeric_parameter :: "jsval \<Rightarrow> string + rat" where
  "numeric_parameter x =
     (case x of
        Num v \<Rightarrow> Inr v
      | Str s \<Rightarrow> (case parse_decimal s of None \<Rightarrow> Inl (invalid_numeric s) | Some v \<Rightarrow> Inr v))"

definition upsertDailyMetrics :: "'raw etl \<Rightarrow> daily_metrics \<Rightarrow> unit io" where
  "upsertDailyMetrics p metrics =
     io_bind
       (pool_query p (\<lambda>w.
          case numeric_parameter (dm_total_revenue metrics) of
            Inl rejection \<Rightarrow> (Inl rejection, w)
          | Inr v \<Rightarrow>
              let conflict = (\<lambda>r. dm_source_type r = dm_source_type metrics
                                   \<and> toDateString (zone p) (metric_date r)
                                       = toDateString (zone p) (metric_date metrics));
                  row = metrics\<lparr> dm_total_revenue := Num v \<rparr>
              in (Inr (),
                  w\<lparr> daily_metrics_tbl :=
                       (if list_ex conflict (daily_metrics_tbl w)
                        then map (\<lambda>r. if conflict r then row else r) (daily_metrics_tbl w)
                        else daily_metrics_tbl w @ [row]) \<rparr>)))
       (\<lambda>outcome. case outcome of
                     Inl rejection \<Rightarrow> io_throw (Error rejection)
                   | Inr u \<Rightarrow> io_return u)"

definition logETLRun :: "'raw etl \<Rightarrow> etl_log \<Rightarrow> unit io" where
  "logETLRun p logEntry =
     pool_query p (\<lambda>w. ((), w\<lparr> etl_logs_tbl := etl_logs_tbl w @ [logEntry] \<rparr>))"

text \<open>
  \<^verbatim>\<open>getLastETLRun\<close>: the successful run of the pipeline and source with the greatest
  \<^verbatim>\<open>completed_at\<close> (a null one sorts first in descending order), or null; null also on a
  database error.
\<close>

fun latest_run :: "etl_log list \<Rightarrow> etl_log option" where
  "latest_run [] = None"
| "latest_run (r # rs) =
     (case latest_run rs of
        None \<Rightarrow> Some r
      | Some r' \<Rightarrow>
          (case (completed_at r, completed_at r') of
             (None, _) \<Rightarrow> Some r
           | (Some t, None) \<Rightarrow> Some r'
           | (Some t, Some t') \<Rightarrow> if t' > t then Some r' else Some r))"

definition getLastETLRun :: "'raw etl \<Rightarrow> string \<Rightarrow> string \<Rightarrow> etl_log option io" where
  "getLastETLRun p pipelineName sourceType =
     io_catch
       (pool_query p (\<lambda>w.
          (latest_run (filter (\<lambda>r. pipeline_name r = pipelineName
                                   \<and> log_source_type r = sourceType
                                   \<and> status r = ''success'') (etl_logs_tbl w)), w)))
       (\<lambda>err. io_return None)"

section \<open>ETL pipeline\<close>

text \<open>
  \<^verbatim>\<open>ETLPipeline\<close> (\<^verbatim>\<open>src/pipelines/etlPipeline.js\<close>). A \<^verbatim>\<open>catch\<close> block that only logs and
  throws the error again changes nothing and is not written.
\<close>

record 'raw extracted =
  ex_customers :: "'raw list"
  ex_products :: "'raw list"
  ex_orders :: "'raw list"

record transformed =
  tr_customers :: "t_customer list"
  tr_products :: "t_product list"
  tr_orders :: "t_order list"
  tr_orderItems :: "t_item list"

record run_result =
  success :: bool
  run_log :: etl_log

record run_results =
  shopify :: "run_result option"
  woocommerce :: "run_result option"
  commercetools :: "run_result option"

text \<open>
  One step of a \<^verbatim>\<open>try\<close> block: if the step throws, control passes to the \<^verbatim>\<open>catch\<close>
  block; otherwise the rest of the block runs. An error thrown by the \<^verbatim>\<open>catch\<close> block
  itself is not caught again.
\<close>

definition io_try :: "'a io \<Rightarrow> (error \<Rightarrow> 'b io) \<Rightarrow> ('a \<Rightarrow> 'b io) \<Rightarrow> 'b io" where
  "io_try m handler rest w =
     (case m w of (Inl e, w') \<Rightarrow> handler e w' | (Inr x, w') \<Rightarrow> rest x w')"

definition extractData :: "'raw connector \<Rightarrow> date option \<Rightarrow> 'raw extracted io" where
  "extractData connector since =
     io_bind (io_lift (getCustomers connector since)) (\<lambda>cs.
     io_bind (io_lift (getProducts connector since)) (\<lambda>ps.
     io_bind (io_lift (getOrders connector since)) (\<lambda>os.
     io_return \<lparr> ex_customers = cs, ex_products = ps, ex_orders = os \<rparr>)))"

text \<open>\<^verbatim>\<open>Array.prototype.map\<close> with a callback that may throw.\<close>

fun map_throw :: "('a \<Rightarrow> error + 'b) \<Rightarrow> 'a list \<Rightarrow> error + 'b list" where
  "map_throw f [] = Inr []"
| "map_throw f (x # xs) =
     (case f x of
        Inl e \<Rightarrow> Inl e
      | Inr y \<Rightarrow> (case map_throw f xs of Inl e \<Rightarrow> Inl e | Inr ys \<Rightarrow> Inr (y # ys)))"

text \<open>The loop of \<^verbatim>\<open>transformData\<close> over the raw orders and their line items.\<close>

fun transform_orders ::
  "'raw etl \<Rightarrow> string \<Rightarrow> 'raw list \<Rightarrow> t_order list \<times> t_item list
    \<Rightarrow> error + (t_order list \<times> t_item list)" where
  "transform_orders p sourceType [] acc = Inr acc"
| "transform_orders p sourceType (ord # rest) (os, items) =
     (case transformOrder p ord sourceType of
        Inl e \<Rightarrow> Inl e
      | Inr transformedOrder \<Rightarrow>
          (case (case raw_line_items p ord of
                   None \<Rightarrow> Inr []
                 | Some line_items \<Rightarrow>
                     map_throw
                       (\<lambda>item. case transformOrderItem p item sourceType of
                                  Inl e \<Rightarrow> Inl e
                                | Inr transformedItem \<Rightarrow>
                                    Inr (transformedItem
                                           \<lparr> ti_source_order_id :=
                                               Some (to_source_id transformedOrder) \<rparr>))
                       line_items) of
             Inl e \<Rightarrow> Inl e
           | Inr newItems \<Rightarrow>
               transform_orders p sourceType rest (os @ [transformedOrder], items @ newItems)))"

definition transformData :: "'raw etl \<Rightarrow> 'raw extracted \<Rightarrow> string \<Rightarrow> error + transformed" where
  "transformData p data sourceType =
     (case map_throw (\<lambda>c. transformCustomer p c sourceType) (ex_customers data) of
        Inl e \<Rightarrow> Inl e
      | Inr cs \<Rightarrow>
          (case map_throw (\<lambda>c. transformProduct p c sourceType) (ex_products data) of
             Inl e \<Rightarrow> Inl e
           | Inr ps \<Rightarrow>
               (case transform_orders p sourceType (ex_orders data) ([], []) of
                  Inl e \<Rightarrow> Inl e
                | Inr (os, items) \<Rightarrow>
                    Inr \<lparr> tr_customers = cs, tr_products = ps, tr_orders = os,
                          tr_orderItems = items \<rparr>)))"

text \<open>
  \<^verbatim>\<open>updateCustomerPurchaseDates\<close>: one \<^verbatim>\<open>UPDATE\<close> over the customers of the source,
  setting the first and last purchase date to the least and greatest \<^verbatim>\<open>processed_at\<close>
  of the customer's orders when there is one. A database error is logged and dropped.
\<close>

definition least_date :: "date list \<Rightarrow> date option" where
  "least_date ds = (case ds of [] \<Rightarrow> None | d # ds' \<Rightarrow> Some (foldl min d ds'))"

definition greatest_date :: "date list \<Rightarrow> date option" where
  "greatest_date ds = (case ds of [] \<Rightarrow> None | d # ds' \<Rightarrow> Some (foldl max d ds'))"

definition coalesce :: "'a option \<Rightarrow> 'a option \<Rightarrow> 'a option" where
  "coalesce x y = (case x of None \<Rightarrow> y | Some v \<Rightarrow> Some v)"

definition updateCustomerPurchaseDates :: "'raw etl \<Rightarrow> string \<Rightarrow> unit io" where
  "updateCustomerPurchaseDates p sourceType =
     io_catch
       (pool_query p (\<lambda>w.
          ((), w\<lparr> customers_tbl :=
                  map (\<lambda>c. if cust_source_type c = sourceType
                            then let ds = List.map_filter o_processed_at
                                            (filter (\<lambda>ord. o_customer_id ord = Some (cust_id c))
                                               (orders_tbl w))
                                 in c\<lparr> cust_first_purchase_date :=
                                          coalesce (least_date ds) (cust_first_purchase_date c),
                                        cust_last_purchase_date :=
                                          coalesce (greatest_date ds) (cust_last_purchase_date c) \<rparr>
                            else c) (customers_tbl w) \<rparr>)))
       (\<lambda>err. io_return ())"

definition empty_batch :: "'a batch_result" where
  "empty_batch = \<lparr> inserted = [], failed = [] \<rparr>"

definition loadData :: "'raw etl \<Rightarrow> transformed \<Rightarrow> string \<Rightarrow> load_results io" where
  "loadData p data sourceType =
     io_bind (upsertCustomerBatch p (tr_customers data)) (\<lambda>customers.
     io_bind (upsertProductBatch p (tr_products data)) (\<lambda>products.
     io_bind
       (io_foldl
          (\<lambda>(os, orderItems) ord.
             io_catch
               (io_bind
                  (if str_or (to_email ord) [] \<noteq> []
                   then findCustomerId p (to_email ord) sourceType
                   else io_return None) (\<lambda>customerId.
                io_bind (upsertOrder p ord customerId) (\<lambda>orderId.
                let items = filter (\<lambda>item. ti_source_order_id item = Some (to_source_id ord))
                              (tr_orderItems data)
                in io_bind
                     (if length items > 0 then insertOrderItems p items orderId
                      else io_return []) (\<lambda>insertedItems.
                   io_return
                     (os\<lparr> inserted := inserted os @ [(ord, orderId)] \<rparr>,
                      orderItems\<lparr> inserted := inserted orderItems @ insertedItems \<rparr>)))))
               (\<lambda>err. io_return (os\<lparr> failed := failed os @ [(ord, message err)] \<rparr>, orderItems)))
          (empty_batch, empty_batch) (tr_orders data)) (\<lambda>(os, orderItems).
     io_bind (updateCustomerPurchaseDates p sourceType) (\<lambda>_.
     io_return
       \<lparr> lr_customers = customers, lr_products = products, lr_orders = os,
         lr_orderItems = orderItems,
         totalLoaded = length (inserted customers) + length (inserted products)
                       + length (inserted os) + length (inserted orderItems) \<rparr>))))"

text \<open>
  The two queries of \<^verbatim>\<open>calculateMetrics\<close>. The first returns every customer of the
  source with the array of its orders by ascending \<^verbatim>\<open>processed_at\<close> (nulls last), which
  is null for a customer without orders; the array is built with
  \<^verbatim>\<open>json_build_object\<close>, which makes \<^verbatim>\<open>total_price\<close> a JSON number. The second returns
  the rows (\<^verbatim>\<open>SELECT o.*\<close>) of the orders of the source processed on the calendar day of
  the date, each with the array of its line items, null when it has none; in these rows
  \<^verbatim>\<open>total_price\<close> is the text of the \<^verbatim>\<open>DECIMAL(15,2)\<close> value.
\<close>

definition customersQuery :: "string \<Rightarrow> world \<Rightarrow> (customer \<times> order list option) list" where
  "customersQuery sourceType w =
     map (\<lambda>c. let os = filter (\<lambda>ord. o_customer_id ord = Some (cust_id c)) (orders_tbl w);
                   sorted = sort_key (\<lambda>ord. newDate (o_processed_at ord))
                              (filter (\<lambda>ord. o_processed_at ord \<noteq> None) os)
                            @ filter (\<lambda>ord. o_processed_at ord = None) os
               in (c, if sorted = [] then None else Some sorted))
         (filter (\<lambda>c. cust_source_type c = sourceType) (customers_tbl w))"

definition ordersQuery :: "(date \<Rightarrow> int) \<Rightarrow> string \<Rightarrow> date \<Rightarrow> world \<Rightarrow> order_row list" where
  "ordersQuery tz sourceType calculationDate w =
     map (\<lambda>ord. let items = map (\<lambda>oi. \<lparr> li_source_product_id = Some (oi_source_product_id oi),
                                          li_title = oi_title oi, li_quantity = oi_quantity oi,
                                          li_price = oi_price oi \<rparr>)
                               (filter (\<lambda>oi. oi_order_id oi = o_id ord) (order_items_tbl w))
                 in \<lparr> r_id = o_id ord,
                      r_customer_id = o_customer_id ord,
                      r_total_price = map_option (\<lambda>v. Str (decimal_text v)) (o_total_price ord),
                      r_processed_at = o_processed_at ord,
                      r_source_name = o_source_name ord,
                      r_line_items = (if items = [] then None else Some items) \<rparr>)
         (filter (\<lambda>ord. o_source_type ord = sourceType
                         \<and> (case o_processed_at ord of
                              None \<Rightarrow> False
                            | Some t \<Rightarrow> toDateString tz t = toDateString tz calculationDate))
                 (orders_tbl w))"

definition calculateMetrics :: "'raw etl \<Rightarrow> transformed \<Rightarrow> string \<Rightarrow> unit io" where
  "calculateMetrics p data sourceType =
     io_bind (now p) (\<lambda>calculationDate.
     io_bind (pool_query p (\<lambda>w. (customersQuery sourceType w, w))) (\<lambda>customersWithOrders.
     io_bind
       (io_forEach customersWithOrders
          (\<lambda>(customer, customer_orders).
             if (case customer_orders of None \<Rightarrow> False | Some os \<Rightarrow> length os > 0)
             then io_bind
                    (io_lift (calculateCustomerMetrics customer customer_orders calculationDate))
                    (\<lambda>metrics. upsertCustomerMetrics p metrics)
             else io_return ())) (\<lambda>_.
     io_bind (pool_query p (\<lambda>w. (ordersQuery (zone p) sourceType calculationDate w, w)))
       (\<lambda>dailyOrders.
          let dailyMetrics = calculateDailyMetrics (zone p) dailyOrders (tr_products data)
                               calculationDate;
              dailyMetrics = dailyMetrics\<lparr> dm_source_type := Some sourceType \<rparr>
          in upsertDailyMetrics p dailyMetrics))))"

text \<open>
  \<^verbatim>\<open>runForSource\<close>. \<open>catchBlock\<close> is the \<^verbatim>\<open>catch\<close> block; it receives the log object as the
  \<^verbatim>\<open>try\<close> block has filled it up to the step that threw.
\<close>

definition runForSource :: "'raw etl \<Rightarrow> string \<Rightarrow> run_result io" where
  "runForSource p sourceType =
     io_bind (now p) (\<lambda>startedAt.
     let etlLog = \<lparr> pipeline_name = ''main_etl'', log_source_type = sourceType,
                    status = ''running'', records_extracted = 0, records_transformed = 0,
                    records_loaded = 0, started_at = startedAt, log_metadata = None,
                    error_message = None, completed_at = None, duration_seconds = None \<rparr>;
         catchBlock = (\<lambda>etlLog err.
           io_bind (now p) (\<lambda>completedAt.
           let etlLog = etlLog\<lparr> status := ''failed'',
                                 error_message := Some (message err),
                                 completed_at := Some completedAt,
                                 duration_seconds :=
                                   Some ((completedAt - started_at etlLog) div 1000) \<rparr>
           in io_bind (logETLRun p etlLog) (\<lambda>_.
              io_return \<lparr> success = False, run_log = etlLog \<rparr>)))
     in case connectors p sourceType of
          None \<Rightarrow> catchBlock etlLog (Error (''Connector for '' @ sourceType @ '' not initialized''))
        | Some connector \<Rightarrow>
            if \<not> testConnection connector
            then catchBlock etlLog (Error (''Failed to connect to '' @ sourceType))
            else
              io_try (getLastETLRun p ''main_etl'' sourceType) (catchBlock etlLog) (\<lambda>lastRun.
              let since = (case lastRun of None \<Rightarrow> None
                           | Some r \<Rightarrow> Some (newDate (completed_at r)))
              in
              io_try (extractData connector since) (catchBlock etlLog) (\<lambda>extractedData.
              let etlLog = etlLog\<lparr> records_extracted :=
                             length (ex_customers extractedData)
                             + length (ex_products extractedData)
                             + length (ex_orders extractedData) \<rparr>
              in
              io_try (io_lift (transformData p extractedData sourceType)) (catchBlock etlLog)
                (\<lambda>transformedData.
              let etlLog = etlLog\<lparr> records_transformed :=
                             length (tr_customers transformedData)
                             + length (tr_products transformedData)
                             + length (tr_orders transformedData) \<rparr>
              in
              io_try (loadData p transformedData sourceType) (catchBlock etlLog) (\<lambda>loadResults.
              let etlLog = etlLog\<lparr> records_loaded := totalLoaded loadResults \<rparr>
              in
              io_try (calculateMetrics p transformedData sourceType) (catchBlock etlLog) (\<lambda>_.
              io_bind (now p) (\<lambda>completedAt.
              let etlLog = etlLog\<lparr> status := ''success'',
                                    completed_at := Some completedAt,
                                    duration_seconds :=
                                      Some ((completedAt - started_at etlLog) div 1000),
                                    log_metadata := Some loadResults \<rparr>
              in
              io_try (logETLRun p etlLog) (catchBlock etlLog) (\<lambda>_.
              io_return \<lparr> success = True, run_log = etlLog \<rparr>))))))))"

text \<open>
  \<^verbatim>\<open>run\<close>: the enabled sources one after the other. \<^verbatim>\<open>Date.now()\<close> is read at the start
  and at the end.
\<close>

definition run :: "'raw etl \<Rightarrow> run_results io" where
  "run p =
     io_bind (now p) (\<lambda>startTime.
     let results = \<lparr> shopify = None, woocommerce = None, commercetools = None \<rparr>
     in
     io_bind (if enabled p ''shopify''
              then io_bind (runForSource p ''shopify'')
                     (\<lambda>r. io_return (results\<lparr> shopify := Some r \<rparr>))
              else io_return results) (\<lambda>results.
     io_bind (if enabled p ''woocommerce''
              then io_bind (runForSource p ''woocommerce'')
                     (\<lambda>r. io_return (results\<lparr> woocommerce := Some r \<rparr>))
              else io_return results) (\<lambda>results.
     io_bind (if enabled p ''commercetools''
              then io_bind (runForSource p ''commercetools'')
                     (\<lambda>r. io_return (results\<lparr> commercetools := Some r \<rparr>))
              else io_return results) (\<lambda>results.
     io_bind (now p) (\<lambda>endTime. io_return results)))))"


section \<open>Definitions used to state the properties\<close>

text \<open>The orders of a customer, as \<^verbatim>\<open>calculateCustomerMetrics\<close> selects and sorts them.\<close>

definition matches :: "customer \<Rightarrow> order \<Rightarrow> bool" where
  "matches customer ord = (o_customer_id ord = Some (cust_id customer))"

definition customerOrders_of :: "customer \<Rightarrow> order list \<Rightarrow> order list" where
  "customerOrders_of customer os =
     sort_key (\<lambda>ord. newDate (o_processed_at ord)) (filter (matches customer) os)"

text \<open>
  The churn table of the specification: the first row whose bound exceeds the number of
  days gives the probability, and 0.90 applies when no row does.
\<close>

definition churn_table :: "(int \<times> rat) list" where
  "churn_table =
     [(30, 5 / 100), (60, 15 / 100), (90, 25 / 100), (180, 45 / 100), (365, 70 / 100)]"

fun churn_lookup :: "(int \<times> rat) list \<Rightarrow> int \<Rightarrow> rat" where
  "churn_lookup [] days = 90 / 100"
| "churn_lookup ((bound, p) # rest) days = (if days < bound then p else churn_lookup rest days)"

definition churn_step :: "int \<Rightarrow> rat" where
  "churn_step days = churn_lookup churn_table days"

text \<open>
  The segmentation rules of the specification, as an ordered decision list over the
  triple (recency, frequency, monetary); the combined score is the sum of the three.
\<close>

definition segment_rules :: "((int \<times> int \<times> int \<Rightarrow> bool) \<times> string) list" where
  "segment_rules =
     [(\<lambda>(r, f, m). r \<ge> 4 \<and> f \<ge> 4 \<and> m \<ge> 4, ''Champions''),
      (\<lambda>(r, f, m). f \<ge> 3 \<and> m \<ge> 3 \<and> r + f + m \<ge> 9, ''Loyal Customers''),
      (\<lambda>(r, f, m). r \<ge> 3 \<and> f \<ge> 2 \<and> r + f + m \<ge> 7, ''Potential Loyalists''),
      (\<lambda>(r, f, m). r \<ge> 4 \<and> f \<le> 2, ''New Customers''),
      (\<lambda>(r, f, m). r \<le> 2 \<and> f \<ge> 3 \<and> m \<ge> 3, ''At Risk''),
      (\<lambda>(r, f, m). r \<le> 2 \<and> m \<ge> 4, ''Cannot Lose''),
      (\<lambda>(r, f, m). r \<le> 2 \<and> f \<le> 2 \<and> m \<le> 2, ''Hibernating''),
      (\<lambda>(r, f, m). m \<le> 2 \<and> f \<ge> 3, ''Price Sensitive'')]"

fun first_match :: "(('a \<Rightarrow> bool) \<times> 'b) list \<Rightarrow> 'b \<Rightarrow> 'a \<Rightarrow> 'b" where
  "first_match [] dflt x = dflt"
| "first_match ((p, v) # rules) dflt x = (if p x then v else first_match rules dflt x)"

definition segment_names :: "string list" where
  "segment_names =
     [''Champions'', ''Loyal Customers'', ''Potential Loyalists'', ''New Customers'',
      ''At Risk'', ''Cannot Lose'', ''Hibernating'', ''Price Sensitive'', ''Regular'']"

text \<open>The scores object that \<^verbatim>\<open>calculateRFMScores\<close> builds from a triple.\<close>

definition rfm_of_triple :: "int \<Rightarrow> int \<Rightarrow> int \<Rightarrow> rfm_scores" where
  "rfm_of_triple r f m = \<lparr> recency = r, frequency = f, monetary = m, combinedScore = r + f + m \<rparr>"

text \<open>
  The orders of the calculation date's calendar day; the sum of the totals of orders whose
  totals are numbers (a missing total counts 0); what the loop's additions give on any
  totals; and the non-null customer ids among a list of orders.
\<close>

definition dayOrders_of :: "(date \<Rightarrow> int) \<Rightarrow> order_row list \<Rightarrow> date \<Rightarrow> order_row list" where
  "dayOrders_of tz orders calculationDate =
     filter (\<lambda>ord. toDateString tz (newDate (r_processed_at ord))
                     = toDateString tz calculationDate) orders"

definition numeric_total :: "order_row \<Rightarrow> bool" where
  "numeric_total ord = (case r_total_price ord of Some (Str s) \<Rightarrow> False | _ \<Rightarrow> True)"

definition total_number :: "order_row \<Rightarrow> rat" where
  "total_number ord = (case r_total_price ord of Some (Num v) \<Rightarrow> v | _ \<Rightarrow> 0)"

definition order_totals :: "order_row list \<Rightarrow> rat" where
  "order_totals os = sum_list (map total_number os)"

definition added_totals :: "order_row list \<Rightarrow> jsval" where
  "added_totals os = foldl js_add (Num 0) (map (\<lambda>ord. js_or_zero (r_total_price ord)) os)"

definition customer_ids :: "order_row list \<Rightarrow> int set" where
  "customer_ids os = set (List.map_filter r_customer_id os)"

subsection \<open>Concrete inputs\<close>

definition customer_1 :: customer where
  "customer_1 =
     \<lparr> cust_id = 1, cust_source_id = ''501'', cust_source_type = ''shopify'',
       cust_email = None, cust_first_purchase_date = None, cust_last_purchase_date = None \<rparr>"

text \<open>An order of customer 1 for 100.00, processed 2024-01-01T00:00:00Z.\<close>

definition order_2024_01_01 :: order where
  "order_2024_01_01 =
     \<lparr> o_id = 1, o_source_id = ''1001'', o_source_type = ''shopify'', o_customer_id = Some 1,
       o_email = None, o_total_price = Some 100, o_processed_at = Some 1704067200000,
       o_source_name = None \<rparr>"

text \<open>An order of customer 2 and an order of no customer, both on 2024-01-01.\<close>

definition order_of_customer_2 :: order where
  "order_of_customer_2 = order_2024_01_01\<lparr> o_id := 2, o_customer_id := Some 2 \<rparr>"

definition order_without_customer :: order where
  "order_without_customer = order_2024_01_01\<lparr> o_id := 3, o_customer_id := None \<rparr>"

text \<open>
  The orders of the test "should handle orders from different dates": 100.00 on
  2024-01-14T10:00Z, 150.00 on 2024-01-15T14:00Z and 75.00 on 2024-01-15T16:00Z, the
  totals being numbers. \<open>utc\<close> is the zone of offset 0.
\<close>

definition utc :: "date \<Rightarrow> int" where
  "utc d = 0"

definition ordersWithDifferentDates :: "order_row list" where
  "ordersWithDifferentDates =
     [\<lparr> r_id = 1, r_customer_id = Some 1, r_total_price = Some (Num 100),
        r_processed_at = Some 1705226400000, r_source_name = Some ''web'',
        r_line_items = Some [\<lparr> li_source_product_id = Some ''1'', li_title = Some ''Product A'',
                               li_quantity = Some 2, li_price = Some 50 \<rparr>] \<rparr>,
      \<lparr> r_id = 2, r_customer_id = Some 2, r_total_price = Some (Num 150),
        r_processed_at = Some 1705327200000, r_source_name = Some ''mobile'',
        r_line_items = Some [\<lparr> li_source_product_id = Some ''2'', li_title = Some ''Product B'',
                               li_quantity = Some 1, li_price = Some 150 \<rparr>] \<rparr>,
      \<lparr> r_id = 3, r_customer_id = Some 1, r_total_price = Some (Num 75),
        r_processed_at = Some 1705334400000, r_source_name = Some ''web'',
        r_line_items = Some [\<lparr> li_source_product_id = Some ''1'', li_title = Some ''Product A'',
                               li_quantity = Some 1, li_price = Some 75 \<rparr>] \<rparr>]"

text \<open>
  Two rows as the pipeline's daily query returns them, both on 2024-01-15: the totals
  100.00 and 50.00 are the strings that the database driver gives for the column.
\<close>

definition rows_of_2024_01_15 :: "order_row list" where
  "rows_of_2024_01_15 =
     [\<lparr> r_id = 1, r_customer_id = Some 1, r_total_price = Some (Str ''100.00''),
        r_processed_at = Some 1705327200000, r_source_name = None, r_line_items = None \<rparr>,
      \<lparr> r_id = 2, r_customer_id = Some 2, r_total_price = Some (Str ''50.00''),
        r_processed_at = Some 1705334400000, r_source_name = None, r_line_items = None \<rparr>]"

text \<open>
  Three orders of one day with numbers as totals: two of customer 1 and one without a
  customer.
\<close>

definition rows_with_and_without_customer :: "order_row list" where
  "rows_with_and_without_customer =
     [\<lparr> r_id = 1, r_customer_id = Some 1, r_total_price = Some (Num 100),
        r_processed_at = Some 1705327200000, r_source_name = None, r_line_items = None \<rparr>,
      \<lparr> r_id = 2, r_customer_id = None, r_total_price = Some (Num 40),
        r_processed_at = Some 1705330800000, r_source_name = None, r_line_items = None \<rparr>,
      \<lparr> r_id = 3, r_customer_id = Some 1, r_total_price = Some (Num 60),
        r_processed_at = Some 1705334400000, r_source_name = None, r_line_items = None \<rparr>]"

subsection \<open>Definitions for the pipeline properties\<close>

text \<open>
  \<^verbatim>\<open>run\<close> as a loop: \<^verbatim>\<open>runForSource\<close> for each enabled source of a list, in order, each
  result stored under the source's name.
\<close>

definition set_result :: "string \<Rightarrow> run_result \<Rightarrow> run_results \<Rightarrow> run_results" where
  "set_result sourceType r results =
     (if sourceType = ''shopify'' then results\<lparr> shopify := Some r \<rparr>
      else if sourceType = ''woocommerce'' then results\<lparr> woocommerce := Some r \<rparr>
      else if sourceType = ''commercetools'' then results\<lparr> commercetools := Some r \<rparr>
      else results)"

fun run_sources :: "'raw etl \<Rightarrow> string list \<Rightarrow> run_results \<Rightarrow> run_results io" where
  "run_sources p [] results = io_return results"
| "run_sources p (sourceType # rest) results =
     (if enabled p sourceType
      then io_bind (runForSource p sourceType)
             (\<lambda>r. run_sources p rest (set_result sourceType r results))
      else run_sources p rest results)"

definition no_results :: run_results where
  "no_results = \<lparr> shopify = None, woocommerce = None, commercetools = None \<rparr>"

text \<open>
  The names of the three sources, the entry of a source in the results of \<^verbatim>\<open>run\<close>, and
  the result of a run for a source whose connection test failed.
\<close>

definition source_names :: "string list" where
  "source_names = [''shopify'', ''woocommerce'', ''commercetools'']"

definition result_of :: "string \<Rightarrow> run_results \<Rightarrow> run_result option" where
  "result_of sourceType results =
     (if sourceType = ''shopify'' then shopify results
      else if sourceType = ''woocommerce'' then woocommerce results
      else if sourceType = ''commercetools'' then commercetools results
      else None)"

definition failed_to_connect :: "string \<Rightarrow> run_result \<Rightarrow> bool" where
  "failed_to_connect sourceType r =
     (\<not> success r \<and> status (run_log r) = ''failed''
      \<and> records_extracted (run_log r) = 0
      \<and> records_transformed (run_log r) = 0
      \<and> records_loaded (run_log r) = 0
      \<and> error_message (run_log r) = Some (''Failed to connect to '' @ sourceType))"

text \<open>The database rejects none of the \<open>k\<close> statements from the \<open>n\<close>-th on.\<close>

definition accepts :: "'raw etl \<Rightarrow> nat \<Rightarrow> nat \<Rightarrow> bool" where
  "accepts p n k = (\<forall>i < k. fault p (n + i) = None)"

text \<open>
  The number of statements that \<^verbatim>\<open>calculateMetrics\<close> sends up to the end of its loop
  over the customers: the customers query and one upsert for each row that passes the
  loop's test.
\<close>

definition metrics_statements :: "string \<Rightarrow> world \<Rightarrow> nat" where
  "metrics_statements sourceType w =
     1 + length (filter (\<lambda>(customer, customer_orders).
                           case customer_orders of None \<Rightarrow> False | Some os \<Rightarrow> length os > 0)
                   (customersQuery sourceType w))"

text \<open>
  The table that \<^verbatim>\<open>upsertCustomerMetrics\<close> leaves, two rows having the same key, the
  metrics that the loop of \<^verbatim>\<open>calculateMetrics\<close> upserts for the rows of its query, in
  order, and the orders array that the query builds for a customer id.
\<close>

definition upsert_metrics_row :: "(date \<Rightarrow> int) \<Rightarrow> customer_metrics list \<Rightarrow> customer_metrics \<Rightarrow> customer_metrics list" where
  "upsert_metrics_row tz tbl metrics =
     (let conflict = (\<lambda>r. customer_id r = customer_id metrics
                            \<and> toDateString tz (calculation_date r)
                                = toDateString tz (calculation_date metrics))
      in if list_ex conflict tbl then map (\<lambda>r. if conflict r then metrics else r) tbl
         else tbl @ [metrics])"

definition same_key :: "(date \<Rightarrow> int) \<Rightarrow> customer_metrics \<Rightarrow> customer_metrics \<Rightarrow> bool" where
  "same_key tz r m = (customer_id r = customer_id m
       \<and> toDateString tz (calculation_date r) = toDateString tz (calculation_date m))"

fun upserted :: "date \<Rightarrow> (customer \<times> order list option) list \<Rightarrow> customer_metrics list" where
  "upserted d [] = []"
| "upserted d ((c, x) # rows) =
     (case x of
        None \<Rightarrow> upserted d rows
      | Some os \<Rightarrow>
          if length os > 0
          then (case calculateCustomerMetrics c (Some os) d of
                  Inl e \<Rightarrow> upserted d rows
                | Inr m \<Rightarrow> m # upserted d rows)
          else upserted d rows)"

definition sql_customer_orders :: "world \<Rightarrow> int \<Rightarrow> order list option" where
  "sql_customer_orders w k =
     (let os = filter (\<lambda>ord. o_customer_id ord = Some k) (orders_tbl w);
          sorted = sort_key (\<lambda>ord. newDate (o_processed_at ord))
                     (filter (\<lambda>ord. o_processed_at ord \<noteq> None) os)
                   @ filter (\<lambda>ord. o_processed_at ord = None) os
      in if sorted = [] then None else Some sorted)"

subsection \<open>Concrete pipelines and states\<close>

text \<open>
  A second customer without orders; a connector whose connection test fails and one
  whose test succeeds and that has no data; a pipeline with Shopify enabled on the failing
  connector, and one with WooCommerce enabled as well, on the working connector; a clock
  that starts on 2025-01-01 and advances by a second per reading; a database that rejects
  nothing, and a pipeline whose database rejects every statement; an empty database, one
  with customer 1 alone, and one with customers 1 and 2 and two orders of customer 1, of
  100.00 and 50.00, processed on 2025-01-01.
\<close>

definition customer_2 :: customer where
  "customer_2 = customer_1\<lparr> cust_id := 2, cust_source_id := ''502'' \<rparr>"

definition failing_connector :: "unit connector" where
  "failing_connector =
     \<lparr> testConnection = False, getCustomers = (\<lambda>since. Inr []),
       getProducts = (\<lambda>since. Inr []), getOrders = (\<lambda>since. Inr []) \<rparr>"

definition pipeline_0 :: "unit etl" where
  "pipeline_0 =
     \<lparr> enabled = (\<lambda>s. s = ''shopify''),
       connectors = (\<lambda>s. if s = ''shopify'' then Some failing_connector else None),
       transformCustomer = (\<lambda>raw st. Inl (Error ''no customers'')),
       transformProduct = (\<lambda>raw st. Inl (Error ''no products'')),
       transformOrder = (\<lambda>raw st. Inl (Error ''no orders'')),
       transformOrderItem = (\<lambda>raw st. Inl (Error ''no items'')),
       raw_line_items = (\<lambda>raw. None),
       fault = (\<lambda>n. None),
       clock = (\<lambda>n. 1735689600000 + 1000 * int n),
       zone = (\<lambda>d. 0) \<rparr>"

definition empty_world :: world where
  "empty_world =
     \<lparr> customers_tbl = [], products_tbl = [], orders_tbl = [], order_items_tbl = [],
       customer_metrics_tbl = [], daily_metrics_tbl = [], etl_logs_tbl = [],
       customers_seq = 0, products_seq = 0, orders_seq = 0, order_items_seq = 0,
       queries = 0, clock_reads = 0 \<rparr>"

definition world_one_customer :: world where
  "world_one_customer = empty_world\<lparr> customers_tbl := [customer_1] \<rparr>"

definition order_2025_01_01_a :: order where
  "order_2025_01_01_a =
     order_2024_01_01\<lparr> o_id := 11, o_source_id := ''1011'', o_processed_at := Some 1735693200000 \<rparr>"

definition order_2025_01_01_b :: order where
  "order_2025_01_01_b =
     order_2024_01_01\<lparr> o_id := 12, o_source_id := ''1012'', o_total_price := Some 50,
                       o_processed_at := Some 1735696800000 \<rparr>"

definition world_two_orders_today :: world where
  "world_two_orders_today =
     empty_world\<lparr> customers_tbl := [customer_1, customer_2],
                   orders_tbl := [order_2025_01_01_a, order_2025_01_01_b] \<rparr>"

definition no_data :: transformed where
  "no_data = \<lparr> tr_customers = [], tr_products = [], tr_orders = [], tr_orderItems = [] \<rparr>"

definition working_connector :: "unit connector" where
  "working_connector = failing_connector\<lparr> testConnection := True \<rparr>"

definition pipeline_1 :: "unit etl" where
  "pipeline_1 =
     pipeline_0\<lparr> enabled := (\<lambda>s. s = ''shopify'' \<or> s = ''woocommerce''),
                 connectors := (\<lambda>s. if s = ''shopify'' then Some failing_connector
                                     else if s = ''woocommerce'' then Some working_connector
                                     else None) \<rparr>"



section \<open>Properties of the analytics engine\<close>

subsection \<open>Auxiliary facts\<close>

lemma matches_fun: "matches c = (\<lambda>ord. o_customer_id ord = Some (cust_id c))"
  by (rule ext) (simp add: matches_def)

lemma sort_key_nonempty: "xs \<noteq> [] \<Longrightarrow> sort_key f xs \<noteq> []"
  by (metis length_sort length_0_conv)

lemma customerOrders_of_nonempty:
  "(\<exists>ord \<in> set os. matches c ord) \<Longrightarrow> customerOrders_of c os \<noteq> []"
  unfolding customerOrders_of_def
  by (rule sort_key_nonempty) (simp add: filter_empty_conv)

lemma churn_step_unfold:
  "churn_step d =
     (if d < 30 then 5 / 100 else if d < 60 then 15 / 100 else if d < 90 then 25 / 100
      else if d < 180 then 45 / 100 else if d < 365 then 70 / 100 else 90 / 100)"
  by (simp add: churn_step_def churn_table_def)

lemma churn_step_mono: "d1 \<le> d2 \<Longrightarrow> churn_step d1 \<le> churn_step d2"
  by (simp add: churn_step_unfold)

lemma calculateChurnProbability_churn_step:
  "calculateChurnProbability m =
     churn_step (case days_since_last_purchase m of None \<Rightarrow> 0 | Some d \<Rightarrow> d)"
  by (simp add: calculateChurnProbability_def churn_step_unfold Let_def)

lemma calculateRFMScores_combined:
  "calculateRFMScores c os d = Inr s \<Longrightarrow> combinedScore s = recency s + frequency s + monetary s"
  unfolding calculateRFMScores_def Let_def
  by (cases "os = []") auto

text \<open>
  What \<^const>\<open>calculateCustomerMetrics\<close> returns when at least one order matches the
  customer. The last conjunct is the lifetime value as the code computes it:
  \<^verbatim>\<open>calculatePredictiveCLV\<close> runs while \<^verbatim>\<open>metrics.churn_probability\<close> still holds its
  initial 0, so the retention rate is 1 and the predictive value is 120 months of revenue.
\<close>

lemma metrics_shape:
  assumes ne: "\<exists>ord \<in> set os. matches c ord"
  shows "\<exists>m. calculateCustomerMetrics c (Some os) d = Inr m
          \<and> customer_id m = cust_id c
          \<and> calculation_date m = d
          \<and> total_orders m = length (customerOrders_of c os)
          \<and> total_orders m > 0
          \<and> total_revenue m = calculateTotalRevenue (customerOrders_of c os)
          \<and> average_order_value m = total_revenue m / of_nat (total_orders m)
          \<and> days_since_last_purchase m =
               Some (differenceInDays d (newDate (o_processed_at (last (customerOrders_of c os)))))
          \<and> churn_probability m = calculateChurnProbability m
          \<and> customer_lifetime_value m =
               (calculateSimpleCLV m + average_order_value m * purchase_frequency m * 120) / 2
          \<and> (\<exists>s. calculateRFMScores c (customerOrders_of c os) d = Inr s
                \<and> rfm_recency_score m = recency s
                \<and> rfm_frequency_score m = frequency s
                \<and> rfm_monetary_score m = monetary s
                \<and> customer_segment m = determineSegment s)"
proof -
  let ?f = "filter (\<lambda>ord. o_customer_id ord = Some (cust_id c)) os"
  let ?s = "sort_key (\<lambda>ord. newDate (o_processed_at ord)) ?f"
  have s: "customerOrders_of c os = ?s"
    by (simp add: customerOrders_of_def matches_fun)
  have cne: "?s \<noteq> []" using customerOrders_of_nonempty[OF ne] s by simp
  have fne: "?f \<noteq> []" using ne by (simp add: filter_empty_conv matches_def)
  have len: "length ?s > 0" using fne by simp
  obtain s where rfm: "calculateRFMScores c ?s d = Inr s"
    using cne by (simp add: calculateRFMScores_def Let_def)
  show ?thesis
    unfolding s calculateCustomerMetrics_def
    using fne len rfm
    by (simp add: Let_def calculateChurnProbability_churn_step
        calculateSimpleCLV_def calculatePredictiveCLV_def)
qed

lemma empty_shape:
  assumes "\<not> (\<exists>ord \<in> set os. matches c ord)"
  shows "calculateCustomerMetrics c (Some os) d = Inr (getEmptyMetrics (cust_id c) d)"
proof -
  have "filter (\<lambda>ord. o_customer_id ord = Some (cust_id c)) os = []"
    using assms by (simp add: filter_empty_conv matches_def)
  then show ?thesis by (simp add: calculateCustomerMetrics_def)
qed

text \<open>
  \<^verbatim>\<open>determineSegment\<close> reads \<^verbatim>\<open>combinedScore\<close> from the scores object, and
  \<^verbatim>\<open>calculateRFMScores\<close> sets it to the sum of the three scores. So the segment of a
  returned record is decided by the record's three scores.
\<close>

lemma segment_of_scores:
  "calculateRFMScores c os d = Inr s \<Longrightarrow>
   determineSegment s = first_match segment_rules ''Regular'' (recency s, frequency s, monetary s)"
proof -
  assume "calculateRFMScores c os d = Inr s"
  then have cs: "combinedScore s = recency s + frequency s + monetary s"
    by (rule calculateRFMScores_combined)
  show ?thesis
    unfolding determineSegment_def segment_rules_def
    by (simp only: first_match.simps prod.case cs)
qed

lemma customer_segment_decision_list:
  assumes "\<exists>ord \<in> set os. matches c ord"
    and "calculateCustomerMetrics c (Some os) d = Inr m"
  shows "customer_segment m =
           first_match segment_rules ''Regular''
             (rfm_recency_score m, rfm_frequency_score m, rfm_monetary_score m)"
  using metrics_shape[OF assms(1), of d] assms(2) segment_of_scores
  by fastforce

subsection \<open>Customer lifetime value\<close>

text \<open>
  C1. The claim: for a customer with orders, \<^verbatim>\<open>customer_lifetime_value\<close> is the mean of the
  simple value and of the predictive value, the latter computed from the retention rate
  1 - churn probability, the churn probability being the step function of the days since
  the last purchase. The code calls \<^verbatim>\<open>calculatePredictiveCLV\<close> before it assigns
  \<^verbatim>\<open>metrics.churn_probability\<close>, whose value is then still 0. For customer 1 with one
  order of 100.00 on 2024-01-01 and the calculation date 2025-01-01, the returned record
  has 366 days since the last purchase and churn probability 0.90; the predictive value
  of that record is 1200/109 and the claimed lifetime value (10/3 + 1200/109) / 2, but the
  code returns 18005/3, which is (10/3 + 12000) / 2.
\<close>

theorem C1_predictive_clv_ignores_churn:
  "\<exists>m. calculateCustomerMetrics customer_1 (Some [order_2024_01_01]) 1735689600000 = Inr m
      \<and> days_since_last_purchase m = Some 366
      \<and> churn_probability m = 9 / 10
      \<and> calculateSimpleCLV m = 10 / 3
      \<and> calculatePredictiveCLV m = 1200 / 109
      \<and> customer_lifetime_value m = 18005 / 3
      \<and> customer_lifetime_value m \<noteq> (calculateSimpleCLV m + calculatePredictiveCLV m) / 2"
  by (simp add: calculateCustomerMetrics_def customer_1_def order_2024_01_01_def Let_def
      calculateTotalRevenue_def num_or_def newDate_def differenceInDays_def msPerDay_def
      calculateSimpleCLV_def calculatePredictiveCLV_def calculateChurnProbability_def
      calculateRFMScores_def determineSegment_def)

subsection \<open>Empty metrics\<close>

text \<open>
  C2. The claim: when the orders argument is null or the empty list,
  \<^verbatim>\<open>calculateCustomerMetrics\<close> returns the empty-metrics record. For the empty list it
  does, and the record has the fields the claim lists. For null it does not return:
  \<^verbatim>\<open>orders.filter\<close> throws a TypeError, which the function throws on.
\<close>

theorem C2_null_orders_throws:
  "calculateCustomerMetrics c None d = Inl (TypeError ''Cannot read properties of null'')
   \<and> calculateCustomerMetrics c (Some []) d = Inr (getEmptyMetrics (cust_id c) d)
   \<and> total_revenue (getEmptyMetrics (cust_id c) d) = 0
   \<and> total_orders (getEmptyMetrics (cust_id c) d) = 0
   \<and> average_order_value (getEmptyMetrics (cust_id c) d) = 0
   \<and> purchase_frequency (getEmptyMetrics (cust_id c) d) = 0
   \<and> customer_lifespan_days (getEmptyMetrics (cust_id c) d) = 0
   \<and> customer_lifetime_value (getEmptyMetrics (cust_id c) d) = 0
   \<and> churn_probability (getEmptyMetrics (cust_id c) d) = 1
   \<and> rfm_recency_score (getEmptyMetrics (cust_id c) d) = 1
   \<and> rfm_frequency_score (getEmptyMetrics (cust_id c) d) = 1
   \<and> rfm_monetary_score (getEmptyMetrics (cust_id c) d) = 1
   \<and> customer_segment (getEmptyMetrics (cust_id c) d) = ''Inactive''
   \<and> days_since_last_purchase (getEmptyMetrics (cust_id c) d) = None"
  by (simp add: calculateCustomerMetrics_def getEmptyMetrics_def)

subsection \<open>Average order value\<close>

text \<open>
  C5. For every customer, order list and date \<^verbatim>\<open>calculateCustomerMetrics\<close> returns a
  record. When at least one order matches the customer, its \<^verbatim>\<open>total_orders\<close> is positive,
  \<^verbatim>\<open>average_order_value\<close> is \<^verbatim>\<open>total_revenue / total_orders\<close>, and
  \<^verbatim>\<open>average_order_value * total_orders = total_revenue\<close>. When no order matches,
  \<^verbatim>\<open>total_orders\<close> and \<^verbatim>\<open>average_order_value\<close> are 0.
\<close>

theorem C5_average_order_value:
  "\<exists>m. calculateCustomerMetrics c (Some os) d = Inr m
     \<and> ((\<exists>ord \<in> set os. matches c ord) \<longrightarrow>
            total_orders m > 0
          \<and> average_order_value m = total_revenue m / of_nat (total_orders m)
          \<and> average_order_value m * of_nat (total_orders m) = total_revenue m)
     \<and> (\<not> (\<exists>ord \<in> set os. matches c ord) \<longrightarrow>
            total_orders m = 0 \<and> average_order_value m = 0)"
proof (cases "\<exists>ord \<in> set os. matches c ord")
  case True
  from metrics_shape[OF True, of d] obtain m where
    m: "calculateCustomerMetrics c (Some os) d = Inr m" "total_orders m > 0"
       "average_order_value m = total_revenue m / of_nat (total_orders m)"
    by blast
  then have "average_order_value m * of_nat (total_orders m) = total_revenue m"
    by simp
  with m True show ?thesis by blast
next
  case False
  from empty_shape[OF False, of d] False show ?thesis
    by (simp add: getEmptyMetrics_def)
qed

theorem C5_average_order_value_witness:
  "(\<exists>ord \<in> set [order_2024_01_01]. matches customer_1 ord)
   \<and> \<not> (\<exists>ord \<in> set [order_of_customer_2]. matches customer_1 ord)
   \<and> (\<exists>m. calculateCustomerMetrics customer_1 (Some [order_2024_01_01]) 1735689600000 = Inr m
        \<and> total_orders m > 0
        \<and> average_order_value m * of_nat (total_orders m) = total_revenue m)
   \<and> (\<exists>m. calculateCustomerMetrics customer_1 (Some [order_of_customer_2]) 1735689600000 = Inr m
        \<and> total_orders m = 0 \<and> average_order_value m = 0)"
proof -
  have a: "\<exists>ord \<in> set [order_2024_01_01]. matches customer_1 ord"
    by (simp add: matches_def customer_1_def order_2024_01_01_def)
  have b: "\<not> (\<exists>ord \<in> set [order_of_customer_2]. matches customer_1 ord)"
    by (simp add: matches_def customer_1_def order_of_customer_2_def order_2024_01_01_def)
  show ?thesis
    using a b
      C5_average_order_value[of customer_1 "[order_2024_01_01]" 1735689600000]
      C5_average_order_value[of customer_1 "[order_of_customer_2]" 1735689600000]
    by blast
qed

subsection \<open>Segmentation\<close>

text \<open>
  C6. \<^verbatim>\<open>determineSegment\<close>, on the scores object of a triple (recency, frequency,
  monetary), returns what the ordered decision list of the specification returns on the
  triple, the first matching rule deciding: it is a function of the triple. The triple
  (5, 5, 5) gives Champions. Every triple, and so every triple of scores between 1 and 5,
  gives one of the nine segment names. The scores object of a triple carries the sum of
  the three as its \<^verbatim>\<open>combinedScore\<close>, as every object built by \<^verbatim>\<open>calculateRFMScores\<close>
  does.
\<close>

theorem C6_determineSegment_decision_list:
  "determineSegment (rfm_of_triple r f m) = first_match segment_rules ''Regular'' (r, f, m)
   \<and> determineSegment (rfm_of_triple 5 5 5) = ''Champions''
   \<and> first_match segment_rules ''Regular'' (5, 5, 5) = ''Champions''
   \<and> determineSegment (rfm_of_triple r f m) \<in> set segment_names
   \<and> length segment_names = 9 \<and> distinct segment_names"
proof -
  have 1: "determineSegment (rfm_of_triple r f m) = first_match segment_rules ''Regular'' (r, f, m)"
    for r f m
    unfolding determineSegment_def rfm_of_triple_def segment_rules_def
    by (simp only: first_match.simps prod.case rfm_scores.select_convs)
  have 2: "determineSegment (rfm_of_triple 5 5 5) = ''Champions''"
    by (simp add: determineSegment_def rfm_of_triple_def)
  have 3: "determineSegment s \<in> set segment_names" for s
    by (simp add: determineSegment_def segment_names_def)
  have 4: "length segment_names = 9 \<and> distinct segment_names"
    by (simp add: segment_names_def)
  show ?thesis using 1 2 3 4 by metis
qed

subsection \<open>Churn probability\<close>

text \<open>
  C7. When at least one order matches the customer, \<^verbatim>\<open>calculateCustomerMetrics\<close> returns
  a record whose \<^verbatim>\<open>churn_probability\<close> is the step function of the specification's table
  at its \<^verbatim>\<open>days_since_last_purchase\<close>: 0.05 below 30 days, 0.15 below 60, 0.25 below 90,
  0.45 below 180, 0.70 below 365 and 0.90 from 365 days on. The step function is
  monotonically non-decreasing.
\<close>

theorem C7_churn_step_function:
  "((\<exists>ord \<in> set os. matches c ord) \<longrightarrow>
      (\<exists>m days. calculateCustomerMetrics c (Some os) d = Inr m
         \<and> days_since_last_purchase m = Some days
         \<and> churn_probability m = churn_step days))
   \<and> churn_step days' =
       (if days' < 30 then 5 / 100 else if days' < 60 then 15 / 100
        else if days' < 90 then 25 / 100 else if days' < 180 then 45 / 100
        else if days' < 365 then 70 / 100 else 90 / 100)
   \<and> (d1 \<le> d2 \<longrightarrow> churn_step d1 \<le> churn_step d2)"
proof -
  have "\<exists>m days. calculateCustomerMetrics c (Some os) d = Inr m
         \<and> days_since_last_purchase m = Some days
         \<and> churn_probability m = churn_step days"
    if ne: "\<exists>ord \<in> set os. matches c ord"
  proof -
    from metrics_shape[OF ne, of d] obtain m days where
      m: "calculateCustomerMetrics c (Some os) d = Inr m"
         "days_since_last_purchase m = Some days"
         "churn_probability m = calculateChurnProbability m"
      by blast
    then have "churn_probability m = churn_step days"
      by (simp add: calculateChurnProbability_churn_step)
    with m show ?thesis by blast
  qed
  then show ?thesis
    using churn_step_unfold[of days'] churn_step_mono[of d1 d2] by blast
qed

theorem C7_churn_step_function_witness:
  "(\<exists>ord \<in> set [order_2024_01_01]. matches customer_1 ord)
   \<and> (\<exists>m. calculateCustomerMetrics customer_1 (Some [order_2024_01_01]) 1735689600000 = Inr m
        \<and> days_since_last_purchase m = Some 366
        \<and> churn_probability m = churn_step 366)
   \<and> churn_step 366 = 9 / 10
   \<and> (29 :: int) \<le> 30 \<and> churn_step 29 \<le> churn_step 30"
proof -
  have a: "\<exists>ord \<in> set [order_2024_01_01]. matches customer_1 ord"
    by (simp add: matches_def customer_1_def order_2024_01_01_def)
  have b: "differenceInDays 1735689600000 (newDate (o_processed_at order_2024_01_01)) = 366"
    by (simp add: differenceInDays_def msPerDay_def newDate_def order_2024_01_01_def)
  have c: "days_since_last_purchase m = Some 366"
    if "calculateCustomerMetrics customer_1 (Some [order_2024_01_01]) 1735689600000 = Inr m" for m
    using metrics_shape[OF a, of 1735689600000] that b
    by (auto simp: customerOrders_of_def matches_fun customer_1_def order_2024_01_01_def)
  show ?thesis
    using a c
      C7_churn_step_function[of "[order_2024_01_01]" customer_1 1735689600000 366 29 30]
    by (auto simp: churn_step_unfold)
qed

subsection \<open>Orders of other customers\<close>

text \<open>
  C9. \<^verbatim>\<open>calculateCustomerMetrics\<close> depends on the order list only through the orders
  whose \<^verbatim>\<open>customer_id\<close> is the customer's id: two lists with the same matching orders
  (in the same order) give the same result, whatever other orders were added, removed
  or changed. A non-empty list with no matching order gives the empty-metrics record,
  as the empty list does.
\<close>

theorem C9_only_matching_orders:
  "(filter (matches c) os = filter (matches c) os' \<longrightarrow>
      calculateCustomerMetrics c (Some os) d = calculateCustomerMetrics c (Some os') d)
   \<and> (os \<noteq> [] \<and> \<not> (\<exists>ord \<in> set os. matches c ord) \<longrightarrow>
      calculateCustomerMetrics c (Some os) d = calculateCustomerMetrics c (Some []) d
      \<and> calculateCustomerMetrics c (Some os) d = Inr (getEmptyMetrics (cust_id c) d))"
proof -
  have 1: "calculateCustomerMetrics c (Some os) d = calculateCustomerMetrics c (Some os') d"
    if "filter (matches c) os = filter (matches c) os'"
    using that unfolding calculateCustomerMetrics_def matches_fun by simp
  have 2: "calculateCustomerMetrics c (Some os) d = Inr (getEmptyMetrics (cust_id c) d)"
    if "\<not> (\<exists>ord \<in> set os. matches c ord)"
    using that by (rule empty_shape)
  have 3: "calculateCustomerMetrics c (Some []) d = Inr (getEmptyMetrics (cust_id c) d)"
    by (simp add: calculateCustomerMetrics_def)
  show ?thesis using 1 2 3 by simp
qed

theorem C9_only_matching_orders_witness:
  "filter (matches customer_1) [order_of_customer_2, order_2024_01_01, order_without_customer]
     = filter (matches customer_1) [order_2024_01_01]
   \<and> calculateCustomerMetrics customer_1
        (Some [order_of_customer_2, order_2024_01_01, order_without_customer]) 1735689600000
     = calculateCustomerMetrics customer_1 (Some [order_2024_01_01]) 1735689600000
   \<and> [order_of_customer_2] \<noteq> []
   \<and> \<not> (\<exists>ord \<in> set [order_of_customer_2]. matches customer_1 ord)
   \<and> calculateCustomerMetrics customer_1 (Some [order_of_customer_2]) 1735689600000
     = Inr (getEmptyMetrics 1 1735689600000)"
proof -
  have a: "filter (matches customer_1) [order_of_customer_2, order_2024_01_01, order_without_customer]
             = filter (matches customer_1) [order_2024_01_01]"
    by (simp add: matches_def customer_1_def order_2024_01_01_def order_of_customer_2_def
        order_without_customer_def)
  have b: "\<not> (\<exists>ord \<in> set [order_of_customer_2]. matches customer_1 ord)"
    by (simp add: matches_def customer_1_def order_of_customer_2_def order_2024_01_01_def)
  have c: "cust_id customer_1 = 1" by (simp add: customer_1_def)
  have n: "[order_of_customer_2] \<noteq> []" by simp
  have i1: "calculateCustomerMetrics customer_1
        (Some [order_of_customer_2, order_2024_01_01, order_without_customer]) 1735689600000
     = calculateCustomerMetrics customer_1 (Some [order_2024_01_01]) 1735689600000"
    using a C9_only_matching_orders[of customer_1
        "[order_of_customer_2, order_2024_01_01, order_without_customer]"
        "[order_2024_01_01]" 1735689600000]
    by blast
  have i2: "calculateCustomerMetrics customer_1 (Some [order_of_customer_2]) 1735689600000
     = Inr (getEmptyMetrics (cust_id customer_1) 1735689600000)"
    using b n C9_only_matching_orders[of customer_1 "[order_of_customer_2]" "[]" 1735689600000]
    by blast
  show ?thesis
    using a b n i1 i2[unfolded c] by blast
qed

section \<open>Properties of the daily metrics\<close>

subsection \<open>Auxiliary facts\<close>

lemma foldl_item_step_fields:
  "acc_total_revenue (foldl item_step acc items) = acc_total_revenue acc
   \<and> acc_total_customers (foldl item_step acc items) = acc_total_customers acc
   \<and> acc_customerOrderCounts (foldl item_step acc items) = acc_customerOrderCounts acc"
  by (induction items arbitrary: acc) (simp_all add: item_step_def)

lemma daily_step_revenue:
  "acc_total_revenue (daily_step acc ord)
     = js_add (acc_total_revenue acc) (js_or_zero (r_total_price ord))"
  by (simp add: daily_step_def Let_def foldl_item_step_fields split: option.splits)

lemma foldl_daily_step_revenue:
  "acc_total_revenue (foldl daily_step acc os)
     = foldl js_add (acc_total_revenue acc) (map (\<lambda>ord. js_or_zero (r_total_price ord)) os)"
  by (induction os arbitrary: acc) (simp_all add: daily_step_revenue)

text \<open>On totals that are numbers the additions of the loop give the sum.\<close>

lemma js_or_zero_numeric:
  "numeric_total ord \<Longrightarrow> js_or_zero (r_total_price ord) = Num (total_number ord)"
  by (auto simp: numeric_total_def js_or_zero_def total_number_def split: option.splits jsval.splits)

lemma foldl_js_add_numeric:
  "\<forall>ord \<in> set os. numeric_total ord \<Longrightarrow>
   foldl js_add (Num a) (map (\<lambda>ord. js_or_zero (r_total_price ord)) os)
     = Num (a + order_totals os)"
proof (induction os arbitrary: a)
  case Nil
  then show ?case by (simp add: order_totals_def)
next
  case (Cons ord os)
  have "js_or_zero (r_total_price ord) = Num (total_number ord)"
    using Cons.prems by (simp add: js_or_zero_numeric)
  then show ?case
    using Cons.IH[of "a + total_number ord"] Cons.prems
    by (simp add: order_totals_def add.assoc)
qed

lemma added_totals_numeric:
  "\<forall>ord \<in> set os. numeric_total ord \<Longrightarrow> added_totals os = Num (order_totals os)"
  using foldl_js_add_numeric[of os 0] by (simp add: added_totals_def)

lemma map_fst_update:
  "map fst (AList.update k v al) = (if k \<in> set (map fst al) then map fst al else map fst al @ [k])"
  by (induction al) auto

lemma daily_step_customers:
  "acc_total_customers (daily_step acc ord) =
     (case r_customer_id ord of None \<Rightarrow> acc_total_customers acc
      | Some cid \<Rightarrow> if cid = 0 then acc_total_customers acc
                    else set_add cid (acc_total_customers acc))"
  by (simp add: daily_step_def Let_def foldl_item_step_fields split: option.splits)

lemma daily_step_counts_keys:
  "map fst (acc_customerOrderCounts (daily_step acc ord)) =
     (case r_customer_id ord of None \<Rightarrow> map fst (acc_customerOrderCounts acc)
      | Some cid \<Rightarrow> if cid = 0 then map fst (acc_customerOrderCounts acc)
                    else set_add cid (map fst (acc_customerOrderCounts acc)))"
  by (simp add: daily_step_def Let_def foldl_item_step_fields map_fst_update set_add_def
           split: option.splits)

text \<open>The keys of \<^verbatim>\<open>customerOrderCounts\<close> are the elements of the \<^verbatim>\<open>Set\<close>.\<close>

lemma foldl_daily_step_keys:
  "map fst (acc_customerOrderCounts acc) = acc_total_customers acc \<Longrightarrow>
   map fst (acc_customerOrderCounts (foldl daily_step acc os))
     = acc_total_customers (foldl daily_step acc os)"
proof (induction os arbitrary: acc)
  case Nil
  then show ?case by simp
next
  case (Cons ord os)
  have "map fst (acc_customerOrderCounts (daily_step acc ord))
          = acc_total_customers (daily_step acc ord)"
    using Cons.prems
    by (simp add: daily_step_counts_keys daily_step_customers split: option.splits)
  then show ?case using Cons.IH by simp
qed

lemma set_add_set: "set (set_add x xs) = insert x (set xs)"
  by (auto simp: set_add_def)

lemma set_add_distinct: "distinct xs \<Longrightarrow> distinct (set_add x xs)"
  by (simp add: set_add_def)

lemma customer_ids_Cons:
  "customer_ids (ord # os) =
     (case r_customer_id ord of None \<Rightarrow> customer_ids os | Some cid \<Rightarrow> insert cid (customer_ids os))"
  by (simp add: customer_ids_def List.map_filter_simps split: option.splits)

lemma foldl_daily_step_customers:
  "distinct (acc_total_customers acc) \<Longrightarrow>
   distinct (acc_total_customers (foldl daily_step acc os))
   \<and> set (acc_total_customers (foldl daily_step acc os))
       = set (acc_total_customers acc) \<union> (customer_ids os - {0})"
proof (induction os arbitrary: acc)
  case Nil
  then show ?case by (simp add: customer_ids_def List.map_filter_simps)
next
  case (Cons ord os)
  have d: "distinct (acc_total_customers (daily_step acc ord))"
    using Cons.prems by (simp add: daily_step_customers set_add_distinct split: option.splits)
  have s: "set (acc_total_customers (daily_step acc ord)) \<union> (customer_ids os - {0})
             = set (acc_total_customers acc) \<union> (customer_ids (ord # os) - {0})"
    by (auto simp: daily_step_customers set_add_set customer_ids_Cons split: option.splits)
  show ?case using Cons.IH[OF d] s by simp
qed

lemma foldl_new_returning:
  "foldl (\<lambda>(n, r) (customerId, count). if count = 1 then (n + 1, r) else (n, r + 1))
         (n0, r0) entries = (n, r) \<Longrightarrow> n + r = n0 + r0 + length (entries :: (int \<times> nat) list)"
proof (induction entries arbitrary: n0 r0)
  case Nil
  then show ?case by simp
next
  case (Cons e entries)
  obtain k c where e: "e = (k, c)" by (cases e)
  show ?case
  proof (cases "c = 1")
    case True
    with Cons.prems e
    have "foldl (\<lambda>(n, r) (customerId, count). if count = 1 then (n + 1, r) else (n, r + 1))
            (n0 + 1, r0) entries = (n, r)" by simp
    from Cons.IH[OF this] show ?thesis by simp
  next
    case False
    with Cons.prems e
    have "foldl (\<lambda>(n, r) (customerId, count). if count = 1 then (n + 1, r) else (n, r + 1))
            (n0, r0 + 1) entries = (n, r)" by simp
    from Cons.IH[OF this] show ?thesis by simp
  qed
qed

lemma customer_ids_without_zero:
  "\<forall>ord \<in> set os. r_customer_id ord \<noteq> Some 0 \<Longrightarrow> customer_ids os - {0} = customer_ids os"
  by (induction os) (auto simp: customer_ids_Cons customer_ids_def List.map_filter_simps
      split: option.splits)

lemma calculateDailyMetrics_shape:
  fixes products :: 'p and tz :: "date \<Rightarrow> int" and orders :: "order_row list" and d :: date
  defines "dm \<equiv> calculateDailyMetrics tz orders products d"
  shows "dm_total_orders dm = length (dayOrders_of tz orders d)"
    and "dm_total_revenue dm = added_totals (dayOrders_of tz orders d)"
    and "total_customers dm = card (customer_ids (dayOrders_of tz orders d) - {0})"
    and "new_customers dm + returning_customers dm = total_customers dm"
    and "dm_average_order_value dm =
           (if length (dayOrders_of tz orders d) > 0
            then map_option (\<lambda>v. v / of_nat (length (dayOrders_of tz orders d)))
                   (js_to_number (added_totals (dayOrders_of tz orders d)))
            else Some 0)"
proof -
  let ?init = "\<lparr> acc_total_revenue = Num 0, acc_total_customers = [],
                  acc_customerOrderCounts = [], acc_revenue_by_source = Map.empty,
                  acc_total_products_sold = 0 \<rparr>"
  let ?day = "dayOrders_of tz orders d"
  let ?acc = "foldl daily_step ?init ?day"
  let ?step = "\<lambda>(n :: nat, r :: nat) (customerId :: int, count :: nat).
                  if count = 1 then (n + 1, r) else (n, r + 1)"
  obtain n r where nr: "foldl ?step (0, 0) (acc_customerOrderCounts ?acc) = (n, r)"
    by (cases "foldl ?step (0, 0) (acc_customerOrderCounts ?acc)")
  have dm: "dm = \<lparr> metric_date = d,
           dm_total_revenue = acc_total_revenue ?acc,
           dm_total_orders = length ?day,
           total_customers = length (acc_total_customers ?acc),
           new_customers = n,
           returning_customers = r,
           dm_average_order_value =
             (if length ?day > 0
              then map_option (\<lambda>v. v / of_nat (length ?day)) (js_to_number (acc_total_revenue ?acc))
              else Some 0),
           total_products_sold = acc_total_products_sold ?acc,
           revenue_by_source = acc_revenue_by_source ?acc,
           dm_source_type = None \<rparr>"
    unfolding dm_def calculateDailyMetrics_def dayOrders_of_def[symmetric] Let_def
    using nr by simp
  have rev: "acc_total_revenue ?acc = added_totals ?day"
    by (simp add: foldl_daily_step_revenue added_totals_def)
  show "dm_total_orders dm = length ?day" by (simp add: dm)
  show "dm_total_revenue dm = added_totals ?day"
    by (simp add: dm rev)
  show "dm_average_order_value dm =
           (if length ?day > 0
            then map_option (\<lambda>v. v / of_nat (length ?day)) (js_to_number (added_totals ?day))
            else Some 0)"
    by (simp add: dm rev)
  have keys: "map fst (acc_customerOrderCounts ?acc) = acc_total_customers ?acc"
    by (rule foldl_daily_step_keys) simp
  have cust: "distinct (acc_total_customers ?acc)"
             "set (acc_total_customers ?acc) = customer_ids ?day - {0}"
    using foldl_daily_step_customers[of ?init ?day] by simp_all
  show tc: "total_customers dm = card (customer_ids ?day - {0})"
    using cust distinct_card[of "acc_total_customers ?acc"] by (simp add: dm)
  have "n + r = length (acc_customerOrderCounts ?acc)"
    using foldl_new_returning[OF nr] by simp
  also have "\<dots> = length (acc_total_customers ?acc)"
    using keys by (metis length_map)
  finally show "new_customers dm + returning_customers dm = total_customers dm"
    by (simp add: dm)
qed

text \<open>
  \<^const>\<open>toDateString\<close> ignores the time of day: in a zone of constant offset, every
  instant of local day \<open>n\<close> prints as day \<open>n\<close>.
\<close>

lemma toDateString_time_of_day:
  "0 \<le> t \<Longrightarrow> t < msPerDay \<Longrightarrow> toDateString (\<lambda>d. off) (n * msPerDay + t - off) = n"
  by (simp add: toDateString_def msPerDay_def)

text \<open>
  What \<^verbatim>\<open>calculateDailyMetrics\<close> aggregates are the orders of the calculation date's
  calendar day, and their number is \<^verbatim>\<open>total_orders\<close>. When the totals of the orders
  are numbers, or missing, \<^verbatim>\<open>total_revenue\<close> is the sum of the totals of these orders.
\<close>

lemma calculateDailyMetrics_numeric_totals:
  assumes "\<forall>ord \<in> set orders. numeric_total ord"
  shows "dm_total_orders (calculateDailyMetrics tz orders products d)
           = length (dayOrders_of tz orders d)
         \<and> dm_total_revenue (calculateDailyMetrics tz orders products d)
           = Num (order_totals (dayOrders_of tz orders d))"
proof -
  have "\<forall>ord \<in> set (dayOrders_of tz orders d). numeric_total ord"
    using assms by (simp add: dayOrders_of_def)
  then show ?thesis
    using calculateDailyMetrics_shape(1,2)[of tz orders products d]
    by (simp add: added_totals_numeric)
qed

subsection \<open>Orders of the calculation date\<close>

text \<open>
  C4. The claim: for every order list, \<^verbatim>\<open>total_orders\<close> is the number of the orders of
  the calculation date's calendar day and \<^verbatim>\<open>total_revenue\<close> the sum of their totals.
  What the code gives for every input: \<^verbatim>\<open>total_orders\<close> is that number, and
  \<^verbatim>\<open>total_revenue\<close> is what adding the totals one after the other to 0 with
  JavaScript's \<^verbatim>\<open>+\<close> gives. On the orders of the repository's test, whose totals are
  numbers, this is 2 orders and the revenue 225. On the rows that the pipeline passes, the
  totals are strings: for two orders of 100.00 and 50.00 on 2024-01-15 the code gives 2
  orders, but \<^verbatim>\<open>0 + "100.00" + "50.00"\<close> is the string \<^verbatim>\<open>"0100.0050.00"\<close>, which is not
  the sum 150 and not a numeral, and the average order value is \<^verbatim>\<open>NaN\<close>.
\<close>

theorem C4_daily_revenue_concatenates_strings:
  "dm_total_orders (calculateDailyMetrics tz orders products d)
     = length (dayOrders_of tz orders d)
   \<and> dm_total_revenue (calculateDailyMetrics tz orders products d)
       = added_totals (dayOrders_of tz orders d)
   \<and> dayOrders_of utc rows_of_2024_01_15 1705276800000 = rows_of_2024_01_15
   \<and> dm_total_orders (calculateDailyMetrics utc rows_of_2024_01_15 products 1705276800000) = 2
   \<and> dm_total_revenue (calculateDailyMetrics utc rows_of_2024_01_15 products 1705276800000)
       = Str ''0100.0050.00''
   \<and> js_to_number (Str ''0100.0050.00'') = None
   \<and> dm_average_order_value (calculateDailyMetrics utc rows_of_2024_01_15 products 1705276800000)
       = None
   \<and> dm_total_orders (calculateDailyMetrics utc ordersWithDifferentDates products 1705276800000)
       = 2
   \<and> dm_total_revenue (calculateDailyMetrics utc ordersWithDifferentDates products 1705276800000)
       = Num 225"
proof -
  have day: "dayOrders_of utc rows_of_2024_01_15 1705276800000 = rows_of_2024_01_15"
    by (simp add: dayOrders_of_def rows_of_2024_01_15_def toDateString_def msPerDay_def
        newDate_def utc_def)
  have zero: "number_text 0 = ''0''"
    by (simp add: number_text_def show_nat.simps digit_char_def)
  have added: "added_totals rows_of_2024_01_15 = Str ''0100.0050.00''"
    by (simp add: added_totals_def rows_of_2024_01_15_def js_or_zero_def zero)
  have nan: "js_to_number (Str ''0100.0050.00'') = None"
    by (simp add: parse_decimal_def is_digit_def Let_def)
  have day2: "dayOrders_of utc ordersWithDifferentDates 1705276800000 = tl ordersWithDifferentDates"
    by (simp add: dayOrders_of_def ordersWithDifferentDates_def toDateString_def msPerDay_def
        newDate_def utc_def)
  have added2: "added_totals (tl ordersWithDifferentDates) = Num 225"
    by (simp add: added_totals_def ordersWithDifferentDates_def js_or_zero_def)
  have len: "length rows_of_2024_01_15 = 2" "length (tl ordersWithDifferentDates) = 2"
    by (simp_all add: rows_of_2024_01_15_def ordersWithDifferentDates_def)
  have general:
    "dm_total_orders (calculateDailyMetrics tz orders products d)
       = length (dayOrders_of tz orders d)
     \<and> dm_total_revenue (calculateDailyMetrics tz orders products d)
         = added_totals (dayOrders_of tz orders d)"
    using calculateDailyMetrics_shape(1,2)[of tz orders products d] by simp
  have concrete:
    "dayOrders_of utc rows_of_2024_01_15 1705276800000 = rows_of_2024_01_15
     \<and> dm_total_orders (calculateDailyMetrics utc rows_of_2024_01_15 products 1705276800000) = 2
     \<and> dm_total_revenue (calculateDailyMetrics utc rows_of_2024_01_15 products 1705276800000)
         = Str ''0100.0050.00''
     \<and> js_to_number (Str ''0100.0050.00'') = None
     \<and> dm_average_order_value
           (calculateDailyMetrics utc rows_of_2024_01_15 products 1705276800000) = None
     \<and> dm_total_orders
           (calculateDailyMetrics utc ordersWithDifferentDates products 1705276800000) = 2
     \<and> dm_total_revenue
           (calculateDailyMetrics utc ordersWithDifferentDates products 1705276800000) = Num 225"
    using calculateDailyMetrics_shape(1,2,5)[of utc rows_of_2024_01_15 products 1705276800000]
      calculateDailyMetrics_shape(1,2)[of utc ordersWithDifferentDates products 1705276800000]
      nan len
    by (simp add: day added day2 added2)
  show ?thesis using general concrete by (simp only: simp_thms)
qed

subsection \<open>Customer counts\<close>

text \<open>
  C10. In every result of \<^verbatim>\<open>calculateDailyMetrics\<close>,
  \<^verbatim>\<open>new_customers + returning_customers = total_customers\<close>, and \<^verbatim>\<open>total_customers\<close> is
  the number of distinct customer ids among the day's orders. An order without a
  customer id is one whose id is null or, for \<^verbatim>\<open>if (order.customer_id)\<close>, 0; no key of the
  customers table is 0, and when no order carries 0 the count is that of the distinct
  non-null ids. Every order of the day, with a customer id or without, counts in
  \<^verbatim>\<open>total_orders\<close>, and its total is added into \<^verbatim>\<open>total_revenue\<close>, which is the sum of the
  totals of all the day's orders when the totals are numbers.
\<close>

theorem C10_customer_counts:
  "new_customers (calculateDailyMetrics tz orders products d)
     + returning_customers (calculateDailyMetrics tz orders products d)
     = total_customers (calculateDailyMetrics tz orders products d)
   \<and> total_customers (calculateDailyMetrics tz orders products d)
       = card (customer_ids (dayOrders_of tz orders d) - {0})
   \<and> ((\<forall>ord \<in> set orders. r_customer_id ord \<noteq> Some 0) \<longrightarrow>
        total_customers (calculateDailyMetrics tz orders products d)
          = card (customer_ids (dayOrders_of tz orders d)))
   \<and> dm_total_orders (calculateDailyMetrics tz orders products d)
       = length (dayOrders_of tz orders d)
   \<and> dm_total_revenue (calculateDailyMetrics tz orders products d)
       = added_totals (dayOrders_of tz orders d)
   \<and> ((\<forall>ord \<in> set orders. numeric_total ord) \<longrightarrow>
        dm_total_revenue (calculateDailyMetrics tz orders products d)
          = Num (order_totals (dayOrders_of tz orders d)))"
proof -
  have ids: "customer_ids (dayOrders_of tz orders d) - {0} = customer_ids (dayOrders_of tz orders d)"
    if "\<forall>ord \<in> set orders. r_customer_id ord \<noteq> Some 0"
    using that by (intro customer_ids_without_zero) (simp add: dayOrders_of_def)
  show ?thesis
    using calculateDailyMetrics_shape(1-4)[of tz orders products d]
      calculateDailyMetrics_numeric_totals[of orders tz products d] ids
    by simp
qed

theorem C10_customer_counts_witness:
  "map r_customer_id rows_with_and_without_customer = [Some 1, None, Some 1]
   \<and> map r_total_price rows_with_and_without_customer
       = [Some (Num 100), Some (Num 40), Some (Num 60)]
   \<and> dayOrders_of utc rows_with_and_without_customer 1705276800000
       = rows_with_and_without_customer
   \<and> customer_ids rows_with_and_without_customer = {1}
   \<and> total_customers (calculateDailyMetrics utc rows_with_and_without_customer () 1705276800000)
       = 1
   \<and> new_customers (calculateDailyMetrics utc rows_with_and_without_customer () 1705276800000)
      + returning_customers
          (calculateDailyMetrics utc rows_with_and_without_customer () 1705276800000) = 1
   \<and> dm_total_orders (calculateDailyMetrics utc rows_with_and_without_customer () 1705276800000)
       = 3
   \<and> dm_total_revenue (calculateDailyMetrics utc rows_with_and_without_customer () 1705276800000)
       = Num 200"
proof -
  have h1: "\<forall>ord \<in> set rows_with_and_without_customer. r_customer_id ord \<noteq> Some 0"
    by (simp add: rows_with_and_without_customer_def)
  have h2: "\<forall>ord \<in> set rows_with_and_without_customer. numeric_total ord"
    by (simp add: rows_with_and_without_customer_def numeric_total_def)
  have day: "dayOrders_of utc rows_with_and_without_customer 1705276800000
       = rows_with_and_without_customer"
    by (simp add: dayOrders_of_def rows_with_and_without_customer_def toDateString_def
        msPerDay_def newDate_def utc_def)
  have ids: "customer_ids rows_with_and_without_customer = {1}"
    by (simp add: customer_ids_def List.map_filter_simps rows_with_and_without_customer_def)
  have tot: "order_totals rows_with_and_without_customer = 200"
    by (simp add: order_totals_def total_number_def rows_with_and_without_customer_def)
  have added: "added_totals rows_with_and_without_customer = Num 200"
    by (simp add: added_totals_def js_or_zero_def rows_with_and_without_customer_def)
  have len: "length rows_with_and_without_customer = 3"
    by (simp add: rows_with_and_without_customer_def)
  have ms: "map r_customer_id rows_with_and_without_customer = [Some 1, None, Some 1]"
    "map r_total_price rows_with_and_without_customer
       = [Some (Num 100), Some (Num 40), Some (Num 60)]"
    by (simp_all add: rows_with_and_without_customer_def)
  have "total_customers (calculateDailyMetrics utc rows_with_and_without_customer () 1705276800000)
       = 1
   \<and> new_customers (calculateDailyMetrics utc rows_with_and_without_customer () 1705276800000)
      + returning_customers
          (calculateDailyMetrics utc rows_with_and_without_customer () 1705276800000) = 1
   \<and> dm_total_orders (calculateDailyMetrics utc rows_with_and_without_customer () 1705276800000)
       = 3
   \<and> dm_total_revenue (calculateDailyMetrics utc rows_with_and_without_customer () 1705276800000)
       = Num 200"
    using h1 h2 C10_customer_counts[of utc rows_with_and_without_customer "()" 1705276800000]
    by (simp add: day ids tot len added)
  then show ?thesis using ms day ids by (simp only: simp_thms)
qed
section \<open>Properties of the pipeline\<close>

subsection \<open>Auxiliary facts\<close>

lemma io_bind_return [simp]: "io_bind (io_return x) f = f x"
  by (rule ext) (simp add: io_bind_def io_return_def)

lemma io_bind_assoc: "io_bind (io_bind m f) g = io_bind m (\<lambda>x. io_bind (f x) g)"
  by (rule ext) (simp add: io_bind_def split: prod.splits sum.splits)

lemma io_bind_if: "io_bind (if b then m else m') f = (if b then io_bind m f else io_bind m' f)"
  by simp

lemma accepts_here: "accepts p n (Suc k) \<Longrightarrow> fault p n = None"
  unfolding accepts_def by (drule spec[of _ 0]) simp

lemma accepts_next: "accepts p n (Suc k) \<Longrightarrow> accepts p (Suc n) k"
proof -
  assume a: "accepts p n (Suc k)"
  have "fault p (Suc n + i) = None" if "i < k" for i
    using a that unfolding accepts_def by (drule_tac spec[of _ "Suc i"]) simp
  then show ?thesis by (simp add: accepts_def)
qed

lemma pool_query_ok:
  "fault p (queries w) = None \<Longrightarrow>
   pool_query p statement w =
     (Inr (fst (statement (w\<lparr> queries := queries w + 1 \<rparr>))),
      snd (statement (w\<lparr> queries := queries w + 1 \<rparr>)))"
  by (simp add: pool_query_def Let_def split: prod.splits)

lemma upsertCustomerMetrics_ok:
  "fault p (queries w) = None \<Longrightarrow>
   upsertCustomerMetrics p m w =
     (Inr (), w\<lparr> queries := queries w + 1,
                 customer_metrics_tbl := upsert_metrics_row (zone p) (customer_metrics_tbl w) m \<rparr>)"
  by (simp add: upsertCustomerMetrics_def pool_query_ok upsert_metrics_row_def Let_def)

lemma calculateCustomerMetrics_returns:
  "\<exists>m. calculateCustomerMetrics c (Some os) d = Inr m"
  using metrics_shape[of os c d] empty_shape[of os c d] by blast

text \<open>The loop sends one upsert for each row that passes its test.\<close>

lemma length_upserted:
  "length (upserted d rows)
     = length (filter (\<lambda>(customer, customer_orders).
                         case customer_orders of None \<Rightarrow> False | Some os \<Rightarrow> length os > 0) rows)"
proof -
  define test where "test = (\<lambda>(customer :: customer, customer_orders :: order list option).
                         case customer_orders of None \<Rightarrow> False | Some os \<Rightarrow> length os > 0)"
  have "length (upserted d rows) = length (filter test rows)"
  proof (induction rows)
    case Nil
    then show ?case by simp
  next
    case (Cons row rows)
    obtain c x where row: "row = (c, x)" by (cases row)
    show ?case
    proof (cases x)
      case None
      have "\<not> test (c, x)" by (simp add: test_def None)
      then show ?thesis using Cons.IH by (simp add: row None)
    next
      case (Some os)
      obtain m where m: "calculateCustomerMetrics c (Some os) d = Inr m"
        using calculateCustomerMetrics_returns by blast
      have "test (c, x) = (length os > 0)" by (simp add: test_def Some)
      then show ?thesis using Cons.IH m by (simp add: row Some)
    qed
  qed
  then show ?thesis by (simp only: test_def)
qed

lemma metrics_loop:
  "accepts p (queries w) (length (upserted d rows)) \<Longrightarrow>
   io_forEach rows
     (\<lambda>(customer, customer_orders).
        if (case customer_orders of None \<Rightarrow> False | Some os \<Rightarrow> length os > 0)
        then io_bind (io_lift (calculateCustomerMetrics customer customer_orders d))
               (\<lambda>metrics. upsertCustomerMetrics p metrics)
        else io_return ()) w
   = (Inr (), w\<lparr> queries := queries w + length (upserted d rows),
                 customer_metrics_tbl :=
                   foldl (upsert_metrics_row (zone p)) (customer_metrics_tbl w) (upserted d rows) \<rparr>)"
proof (induction rows arbitrary: w)
  case Nil
  then show ?case by (simp add: io_return_def)
next
  case (Cons row rows)
  obtain c x where row: "row = (c, x)" by (cases row)
  show ?case
  proof (cases "case x of None \<Rightarrow> False | Some os \<Rightarrow> length os > 0")
    case False
    then have u: "upserted d ((c, x) # rows) = upserted d rows"
      by (simp split: option.splits)
    have "accepts p (queries w) (length (upserted d rows))"
      using Cons.prems by (simp only: row u)
    from Cons.IH[OF this] show ?thesis
      using False by (simp add: row u del: upserted.simps)
  next
    case True
    then obtain os where x: "x = Some os" and len: "length os > 0"
      by (cases x) auto
    obtain m where m: "calculateCustomerMetrics c (Some os) d = Inr m"
      using calculateCustomerMetrics_returns by blast
    have u: "upserted d ((c, Some os) # rows) = m # upserted d rows"
      using len m by simp
    let ?w1 = "w\<lparr> queries := queries w + 1,
                 customer_metrics_tbl := upsert_metrics_row (zone p) (customer_metrics_tbl w) m \<rparr>"
    have acc: "accepts p (queries w) (Suc (length (upserted d rows)))"
      using Cons.prems unfolding row x u by simp
    have f0: "fault p (queries w) = None"
      using acc by (rule accepts_here)
    have nf: "accepts p (queries ?w1) (length (upserted d rows))"
      using accepts_next[OF acc] by simp
    have step: "io_bind (io_lift (calculateCustomerMetrics c (Some os) d))
               (\<lambda>metrics. upsertCustomerMetrics p metrics) w = (Inr (), ?w1)"
      by (simp add: io_bind_def io_lift_def m upsertCustomerMetrics_ok[OF f0])
    show ?thesis
      using Cons.IH[OF nf] len step
      by (simp add: row x u io_bind_def del: upserted.simps)
  qed
qed

text \<open>
  The second part of \<^verbatim>\<open>calculateMetrics\<close>, the daily query and \<^verbatim>\<open>upsertDailyMetrics\<close>,
  leaves the customer metrics as they are, whether it returns or throws.
\<close>

lemma upsertDailyMetrics_keeps:
  "customer_metrics_tbl (snd (upsertDailyMetrics p m w)) = customer_metrics_tbl w"
  by (simp add: upsertDailyMetrics_def io_bind_def pool_query_def Let_def io_throw_def
      io_return_def split: option.splits sum.splits)

lemma daily_part_keeps:
  "customer_metrics_tbl
     (snd (io_bind (pool_query p (\<lambda>w. (query w, w))) (\<lambda>rows. upsertDailyMetrics p (f rows)) w))
   = customer_metrics_tbl w"
proof (cases "fault p (queries w)")
  case None
  then show ?thesis
    using upsertDailyMetrics_keeps[of p "f (query (w\<lparr> queries := queries w + 1 \<rparr>))"
        "w\<lparr> queries := queries w + 1 \<rparr>"]
    by (simp add: io_bind_def pool_query_def Let_def)
next
  case (Some msg)
  then show ?thesis by (simp add: io_bind_def pool_query_def Let_def)
qed

lemma upsert_metrics_row_alt:
  "upsert_metrics_row tz tbl m =
     (if list_ex (\<lambda>r. same_key tz r m) tbl then map (\<lambda>r. if same_key tz r m then m else r) tbl
      else tbl @ [m])"
  by (simp add: upsert_metrics_row_def same_key_def Let_def)

lemma upsert_adds: "m \<in> set (upsert_metrics_row tz tbl m)"
  by (auto simp: upsert_metrics_row_alt list_ex_iff)

lemma upsert_keeps:
  "r \<in> set tbl \<Longrightarrow> (same_key tz r m \<longrightarrow> m = r) \<Longrightarrow> r \<in> set (upsert_metrics_row tz tbl m)"
  by (auto simp: upsert_metrics_row_alt list_ex_iff)

lemma foldl_upsert_keeps:
  "r \<in> set tbl \<Longrightarrow> \<forall>m \<in> set ms. same_key tz r m \<longrightarrow> m = r \<Longrightarrow>
   r \<in> set (foldl (upsert_metrics_row tz) tbl ms)"
proof (induction ms arbitrary: tbl)
  case Nil
  then show ?case by simp
next
  case (Cons m ms)
  have "r \<in> set (upsert_metrics_row tz tbl m)"
    using Cons.prems by (intro upsert_keeps) auto
  then show ?case using Cons.IH Cons.prems by simp
qed

lemma foldl_upsert_has:
  "m \<in> set ms \<Longrightarrow> \<forall>m' \<in> set ms. same_key tz m m' \<longrightarrow> m' = m \<Longrightarrow>
   m \<in> set (foldl (upsert_metrics_row tz) tbl ms)"
proof (induction ms arbitrary: tbl)
  case Nil
  then show ?case by simp
next
  case (Cons a ms)
  show ?case
  proof (cases "a = m")
    case True
    have "m \<in> set (upsert_metrics_row tz tbl m)" by (rule upsert_adds)
    then have "m \<in> set (foldl (upsert_metrics_row tz) (upsert_metrics_row tz tbl m) ms)"
      using Cons.prems by (intro foldl_upsert_keeps) auto
    then show ?thesis using True by simp
  next
    case False
    then have "m \<in> set ms" using Cons.prems by auto
    then show ?thesis using Cons.IH Cons.prems by simp
  qed
qed

lemma upsert_filter_other:
  "customer_id m \<noteq> k \<Longrightarrow>
   filter (\<lambda>r. customer_id r = k) (upsert_metrics_row tz tbl m) = filter (\<lambda>r. customer_id r = k) tbl"
proof -
  assume k: "customer_id m \<noteq> k"
  have "filter (\<lambda>r. customer_id r = k) (map (\<lambda>r. if same_key tz r m then m else r) tbl)
          = filter (\<lambda>r. customer_id r = k) tbl"
    using k by (induction tbl) (auto simp: same_key_def)
  then show ?thesis using k by (simp add: upsert_metrics_row_alt)
qed

lemma foldl_upsert_filter_other:
  "\<forall>m \<in> set ms. customer_id m \<noteq> k \<Longrightarrow>
   filter (\<lambda>r. customer_id r = k) (foldl (upsert_metrics_row tz) tbl ms)
     = filter (\<lambda>r. customer_id r = k) tbl"
  by (induction ms arbitrary: tbl) (simp_all add: upsert_filter_other)

lemma calculateRFMScores_customer:
  "calculateRFMScores c os d = calculateRFMScores c' os d"
  by (simp add: calculateRFMScores_def)

lemma calculateCustomerMetrics_customer:
  "cust_id c = cust_id c' \<Longrightarrow> calculateCustomerMetrics c x d = calculateCustomerMetrics c' x d"
  unfolding calculateCustomerMetrics_def
  by (simp only: calculateRFMScores_customer[of c _ d c'])

lemma upserted_mem:
  "m \<in> set (upserted d rows) \<Longrightarrow>
   \<exists>c os. (c, Some os) \<in> set rows \<and> os \<noteq> [] \<and> calculateCustomerMetrics c (Some os) d = Inr m"
proof (induction rows)
  case Nil
  then show ?case by simp
next
  case (Cons row rows)
  obtain c x where row: "row = (c, x)" by (cases row)
  show ?case
  proof (cases "m \<in> set (upserted d rows)")
    case True
    with Cons.IH show ?thesis by auto
  next
    case False
    with Cons.prems row have "\<exists>os. x = Some os \<and> os \<noteq> [] \<and> calculateCustomerMetrics c (Some os) d = Inr m"
      by (auto split: option.splits if_splits sum.splits)
    then show ?thesis using row by auto
  qed
qed

lemma mem_upserted:
  "(c, Some os) \<in> set rows \<Longrightarrow> os \<noteq> [] \<Longrightarrow> calculateCustomerMetrics c (Some os) d = Inr m \<Longrightarrow>
   m \<in> set (upserted d rows)"
  by (induction rows) (auto split: option.splits sum.splits)


lemma customersQuery_alt:
  "customersQuery sourceType w =
     map (\<lambda>c. (c, sql_customer_orders w (cust_id c)))
       (filter (\<lambda>c. cust_source_type c = sourceType) (customers_tbl w))"
  by (simp add: customersQuery_def sql_customer_orders_def Let_def)

lemma customersQuery_row:
  "(c, x) \<in> set (customersQuery sourceType w) \<Longrightarrow> x = sql_customer_orders w (cust_id c)"
  by (auto simp: customersQuery_alt)

lemma customersQuery_complete:
  "c \<in> set (customers_tbl w) \<Longrightarrow> cust_source_type c = sourceType \<Longrightarrow>
   (c, sql_customer_orders w (cust_id c)) \<in> set (customersQuery sourceType w)"
  by (auto simp: customersQuery_alt)

lemma sort_key_Nil_iff: "sort_key f xs = [] \<longleftrightarrow> xs = []"
  by (metis length_sort length_0_conv)

lemma sql_customer_orders_None:
  "sql_customer_orders w (cust_id c) = None \<longleftrightarrow> \<not> (\<exists>ord \<in> set (orders_tbl w). matches c ord)"
proof -
  let ?os = "filter (\<lambda>ord. o_customer_id ord = Some (cust_id c)) (orders_tbl w)"
  have "sql_customer_orders w (cust_id c) = None \<longleftrightarrow>
          filter (\<lambda>ord. o_processed_at ord \<noteq> None) ?os = []
          \<and> filter (\<lambda>ord. o_processed_at ord = None) ?os = []"
    by (simp add: sql_customer_orders_def Let_def sort_key_Nil_iff del: filter_filter)
  also have "\<dots> \<longleftrightarrow> ?os = []"
    by (auto simp: filter_empty_conv simp del: filter_filter)
  also have "\<dots> \<longleftrightarrow> \<not> (\<exists>ord \<in> set (orders_tbl w). matches c ord)"
    by (simp add: filter_empty_conv matches_def)
  finally show ?thesis .
qed

lemma sql_customer_orders_Some:
  "sql_customer_orders w k = Some os \<Longrightarrow> os \<noteq> []"
  by (auto simp: sql_customer_orders_def Let_def sort_key_Nil_iff split: if_splits)

lemma metrics_customer_id:
  assumes "calculateCustomerMetrics c (Some os) d = Inr m"
  shows "customer_id m = cust_id c \<and> calculation_date m = d"
proof (cases "\<exists>ord \<in> set os. matches c ord")
  case True
  from metrics_shape[OF True, of d] assms show ?thesis by auto
next
  case False
  from empty_shape[OF False, of d] assms show ?thesis
    by (auto simp: getEmptyMetrics_def)
qed

text \<open>
  When the database accepts the customers query and the upserts of the loop,
  \<^verbatim>\<open>calculateMetrics\<close> reaches its second part in the state that the loop leaves.
\<close>

lemma calculateMetrics_daily_part:
  assumes acc: "accepts p (queries w) (metrics_statements sourceType w)"
  shows "calculateMetrics p data sourceType w =
           io_bind (pool_query p
                      (\<lambda>w'. (ordersQuery (zone p) sourceType (clock p (clock_reads w)) w', w')))
             (\<lambda>dailyOrders. upsertDailyMetrics p
                ((calculateDailyMetrics (zone p) dailyOrders (tr_products data)
                    (clock p (clock_reads w)))
                   \<lparr> dm_source_type := Some sourceType \<rparr>))
             (w\<lparr> clock_reads := clock_reads w + 1,
                 queries := queries w + 1
                            + length (upserted (clock p (clock_reads w)) (customersQuery sourceType w)),
                 customer_metrics_tbl :=
                   foldl (upsert_metrics_row (zone p)) (customer_metrics_tbl w)
                     (upserted (clock p (clock_reads w)) (customersQuery sourceType w)) \<rparr>)"
proof -
  let ?d = "clock p (clock_reads w)"
  let ?w1 = "w\<lparr> clock_reads := clock_reads w + 1 \<rparr>"
  let ?w2 = "?w1\<lparr> queries := queries ?w1 + 1 \<rparr>"
  let ?rows = "customersQuery sourceType w"
  let ?body = "\<lambda>(customer, customer_orders).
        if (case customer_orders of None \<Rightarrow> False | Some os \<Rightarrow> length os > 0)
        then io_bind (io_lift (calculateCustomerMetrics customer customer_orders ?d))
               (\<lambda>metrics. upsertCustomerMetrics p metrics)
        else io_return ()"
  let ?w3 = "?w2\<lparr> queries := queries ?w2 + length (upserted ?d ?rows),
                 customer_metrics_tbl :=
                   foldl (upsert_metrics_row (zone p)) (customer_metrics_tbl ?w2) (upserted ?d ?rows) \<rparr>"
  have acc': "accepts p (queries w) (Suc (length (upserted ?d ?rows)))"
    using acc by (simp add: metrics_statements_def length_upserted)
  have rows: "customersQuery sourceType ?w2 = ?rows"
    by (simp add: customersQuery_def)
  have q1: "pool_query p (\<lambda>w. (customersQuery sourceType w, w)) ?w1 = (Inr ?rows, ?w2)"
    using accepts_here[OF acc'] rows by (simp add: pool_query_ok)
  have acc2: "accepts p (queries ?w2) (length (upserted ?d ?rows))"
    using accepts_next[OF acc'] by simp
  have loop: "io_forEach ?rows ?body ?w2 = (Inr (), ?w3)"
    using metrics_loop[OF acc2] by simp
  show ?thesis
    unfolding calculateMetrics_def
    using q1 loop
    by (simp add: io_bind_def now_def Let_def)
qed

lemma calculateMetrics_customer_metrics:
  assumes acc: "accepts p (queries w) (metrics_statements sourceType w)"
  shows "customer_metrics_tbl (snd (calculateMetrics p data sourceType w)) =
           foldl (upsert_metrics_row (zone p)) (customer_metrics_tbl w)
             (upserted (clock p (clock_reads w)) (customersQuery sourceType w))"
  unfolding calculateMetrics_daily_part[OF acc] daily_part_keeps
  by simp

text \<open>
  \<^verbatim>\<open>upsertDailyMetrics\<close> throws the database's error when the revenue it passes is no
  numeral.
\<close>

lemma upsertDailyMetrics_rejected:
  "fault p (queries w) = None \<Longrightarrow> numeric_parameter (dm_total_revenue m) = Inl msg \<Longrightarrow>
   fst (upsertDailyMetrics p m w) = Inl (Error msg)"
  by (simp add: upsertDailyMetrics_def io_bind_def pool_query_def Let_def io_throw_def)

text \<open>
  An example: customer 1 has two orders, of 100.00 and 50.00, processed on the day of the
  run. The loop writes the customer's metrics. The daily query then returns the two
  totals as the strings \<^verbatim>\<open>"100.00"\<close> and \<^verbatim>\<open>"50.00"\<close>, the revenue of the day becomes
  \<^verbatim>\<open>"0100.0050.00"\<close>, and the database rejects the upsert of the daily metrics, so that
  \<^verbatim>\<open>calculateMetrics\<close> throws.
\<close>

lemma cents_100: "cents 100 = 10000"
  by (simp add: cents_def floor_eq_iff)

lemma cents_50: "cents 50 = 5000"
  by (simp add: cents_def floor_eq_iff)

lemma decimal_text_100: "decimal_text 100 = ''100.00''"
  by (simp add: decimal_text_def cents_100 show_nat.simps digit_char_def)

lemma decimal_text_50: "decimal_text 50 = ''50.00''"
  by (simp add: decimal_text_def cents_50 show_nat.simps digit_char_def)

lemma ordersQuery_two_orders_today:
  assumes "orders_tbl w = [order_2025_01_01_a, order_2025_01_01_b]"
    and "order_items_tbl w = []"
  shows "ordersQuery utc ''shopify'' 1735689600000 w =
           [\<lparr> r_id = 11, r_customer_id = Some 1, r_total_price = Some (Str ''100.00''),
              r_processed_at = Some 1735693200000, r_source_name = None, r_line_items = None \<rparr>,
            \<lparr> r_id = 12, r_customer_id = Some 1, r_total_price = Some (Str ''50.00''),
              r_processed_at = Some 1735696800000, r_source_name = None, r_line_items = None \<rparr>]"
  using assms
  by (simp add: ordersQuery_def order_2025_01_01_a_def order_2025_01_01_b_def
      order_2024_01_01_def toDateString_def msPerDay_def utc_def decimal_text_100
      decimal_text_50)

lemma calculateMetrics_two_orders_rejected:
  "fst (calculateMetrics pipeline_0 no_data ''shopify'' world_two_orders_today)
     = Inl (Error (invalid_numeric ''0100.0050.00''))"
proof -
  let ?w = world_two_orders_today
  let ?rows =
    "[\<lparr> r_id = 11, r_customer_id = Some 1, r_total_price = Some (Str ''100.00''),
        r_processed_at = Some 1735693200000, r_source_name = None, r_line_items = None \<rparr>,
      \<lparr> r_id = 12, r_customer_id = Some 1, r_total_price = Some (Str ''50.00''),
        r_processed_at = Some 1735696800000, r_source_name = None, r_line_items = None \<rparr>]"
  have acc: "accepts pipeline_0 (queries ?w) (metrics_statements ''shopify'' ?w)"
    by (simp add: accepts_def pipeline_0_def)
  have z: "zone pipeline_0 = utc" "\<And>n. fault pipeline_0 n = None"
    "clock pipeline_0 (clock_reads ?w) = 1735689600000"
    by (simp_all add: pipeline_0_def utc_def world_two_orders_today_def empty_world_def fun_eq_iff)
  have tbl: "orders_tbl ?w = [order_2025_01_01_a, order_2025_01_01_b]" "order_items_tbl ?w = []"
    by (simp_all add: world_two_orders_today_def empty_world_def)
  have day: "dayOrders_of utc ?rows 1735689600000 = ?rows"
    by (simp add: dayOrders_of_def toDateString_def msPerDay_def newDate_def utc_def)
  have zero: "number_text 0 = ''0''"
    by (simp add: number_text_def show_nat.simps digit_char_def)
  have added: "added_totals ?rows = Str ''0100.0050.00''"
    by (simp add: added_totals_def js_or_zero_def zero)
  have rev: "dm_total_revenue (calculateDailyMetrics utc ?rows (tr_products no_data) 1735689600000)
               = Str ''0100.0050.00''"
    using calculateDailyMetrics_shape(2)[of utc ?rows "tr_products no_data" 1735689600000]
    by (simp only: day added)
  have rej: "numeric_parameter (Str ''0100.0050.00'') = Inl (invalid_numeric ''0100.0050.00'')"
    by (simp add: numeric_parameter_def parse_decimal_def is_digit_def Let_def)
  show ?thesis
    unfolding calculateMetrics_daily_part[OF acc]
    by (simp add: io_bind_def pool_query_def Let_def z
        ordersQuery_two_orders_today tbl upsertDailyMetrics_rejected rev rej)
qed

subsection \<open>Customer metrics in the pipeline\<close>

text \<open>
  C3, as the claim states it: \<^verbatim>\<open>calculateMetrics\<close> computes and upserts a row for every
  customer of the source, also for one without orders. With customer 1 of Shopify in the
  store and no order, the step ends normally and has written no row: the loop upserts
  only under \<^verbatim>\<open>if (customer.orders && customer.orders.length > 0)\<close>.
\<close>

theorem C3_counterexample:
  "customers_tbl world_one_customer = [customer_1]
   \<and> cust_source_type customer_1 = ''shopify''
   \<and> fst (calculateMetrics pipeline_0 no_data ''shopify'' world_one_customer) = Inr ()
   \<and> customer_metrics_tbl (snd (calculateMetrics pipeline_0 no_data ''shopify'' world_one_customer))
       = []"
  by (simp add: calculateMetrics_def io_bind_def now_def pool_query_def Let_def io_return_def
      customersQuery_def ordersQuery_def world_one_customer_def empty_world_def pipeline_0_def
      customer_1_def upsertDailyMetrics_def calculateDailyMetrics_def numeric_parameter_def)

text \<open>
  C3, amended. Provided the database accepts the customers query and the upserts that
  the loop sends, the following holds of the state in which \<^verbatim>\<open>calculateMetrics\<close> ends,
  whether its second part, the daily metrics, returns or throws. For every customer of the
  run's source type in the store the query returns a row. If the customer has orders, the
  row carries them and the metrics table then holds the record that
  \<^verbatim>\<open>calculateCustomerMetrics\<close> computes from them at the calculation date. If the customer
  has no order, the row carries null and the metrics rows of that customer are what they
  were: no row is computed or upserted.
\<close>

theorem C3_metrics_for_customers_with_orders:
  assumes acc: "accepts p (queries w) (metrics_statements sourceType w)"
  shows "\<forall>c \<in> set (customers_tbl w). cust_source_type c = sourceType \<longrightarrow>
          (\<exists>x. (c, x) \<in> set (customersQuery sourceType w)
             \<and> (case x of
                  Some os \<Rightarrow>
                    (\<exists>ord \<in> set (orders_tbl w). matches c ord)
                    \<and> (\<exists>m \<in> set (customer_metrics_tbl
                                     (snd (calculateMetrics p data sourceType w))).
                          calculateCustomerMetrics c (Some os) (clock p (clock_reads w)) = Inr m)
                | None \<Rightarrow>
                    \<not> (\<exists>ord \<in> set (orders_tbl w). matches c ord)
                    \<and> filter (\<lambda>m. customer_id m = cust_id c)
                          (customer_metrics_tbl (snd (calculateMetrics p data sourceType w)))
                        = filter (\<lambda>m. customer_id m = cust_id c) (customer_metrics_tbl w)))"
proof -
  let ?d = "clock p (clock_reads w)"
  let ?rows = "customersQuery sourceType w"
  let ?ms = "upserted ?d ?rows"
  define w' where "w' = snd (calculateMetrics p data sourceType w)"
  have tbl: "customer_metrics_tbl w' =
            foldl (upsert_metrics_row (zone p)) (customer_metrics_tbl w) ?ms"
    unfolding w'_def using acc by (rule calculateMetrics_customer_metrics)
  have each: "\<exists>x. (c, x) \<in> set ?rows
             \<and> (case x of
                  Some os \<Rightarrow>
                    (\<exists>ord \<in> set (orders_tbl w). matches c ord)
                    \<and> (\<exists>m \<in> set (customer_metrics_tbl w').
                          calculateCustomerMetrics c (Some os) ?d = Inr m)
                | None \<Rightarrow>
                    \<not> (\<exists>ord \<in> set (orders_tbl w). matches c ord)
                    \<and> filter (\<lambda>m. customer_id m = cust_id c) (customer_metrics_tbl w')
                        = filter (\<lambda>m. customer_id m = cust_id c) (customer_metrics_tbl w))"
    if c: "c \<in> set (customers_tbl w)" and st: "cust_source_type c = sourceType" for c
  proof -
    let ?x = "sql_customer_orders w (cust_id c)"
    have row: "(c, ?x) \<in> set ?rows" using c st by (rule customersQuery_complete)
    have "case ?x of
            Some os \<Rightarrow>
              (\<exists>ord \<in> set (orders_tbl w). matches c ord)
              \<and> (\<exists>m \<in> set (customer_metrics_tbl w').
                    calculateCustomerMetrics c (Some os) ?d = Inr m)
          | None \<Rightarrow>
              \<not> (\<exists>ord \<in> set (orders_tbl w). matches c ord)
              \<and> filter (\<lambda>m. customer_id m = cust_id c) (customer_metrics_tbl w')
                  = filter (\<lambda>m. customer_id m = cust_id c) (customer_metrics_tbl w)"
    proof (cases ?x)
      case None
      have "customer_id m' \<noteq> cust_id c" if m': "m' \<in> set ?ms" for m'
      proof
        assume eq: "customer_id m' = cust_id c"
        from upserted_mem[OF m'] obtain c' os' where
          r': "(c', Some os') \<in> set ?rows" and
          calc: "calculateCustomerMetrics c' (Some os') ?d = Inr m'"
          by blast
        from metrics_customer_id[OF calc] eq have "cust_id c' = cust_id c" by simp
        with customersQuery_row[OF r'] None show False by simp
      qed
      then have "filter (\<lambda>m. customer_id m = cust_id c) (customer_metrics_tbl w')
                  = filter (\<lambda>m. customer_id m = cust_id c) (customer_metrics_tbl w)"
        unfolding tbl by (intro foldl_upsert_filter_other) blast
      then show ?thesis using None sql_customer_orders_None[of w c] by simp
    next
      case (Some os)
      have ne: "os \<noteq> []" using Some by (rule sql_customer_orders_Some)
      have ex: "\<exists>ord \<in> set (orders_tbl w). matches c ord"
        using Some sql_customer_orders_None[of w c] by simp
      obtain m where m: "calculateCustomerMetrics c (Some os) ?d = Inr m"
        using calculateCustomerMetrics_returns by blast
      have mem: "m \<in> set ?ms"
        using row ne m unfolding Some by (rule mem_upserted)
      have uniq: "\<forall>m' \<in> set ?ms. same_key (zone p) m m' \<longrightarrow> m' = m"
      proof (intro ballI impI)
        fix m' assume m': "m' \<in> set ?ms" and k: "same_key (zone p) m m'"
        from upserted_mem[OF m'] obtain c' os' where
          r': "(c', Some os') \<in> set ?rows" and
          calc: "calculateCustomerMetrics c' (Some os') ?d = Inr m'"
          by blast
        have ids: "cust_id c' = cust_id c"
          using metrics_customer_id[OF calc] metrics_customer_id[OF m] k
          by (simp add: same_key_def)
        have "os' = os" using customersQuery_row[OF r'] Some ids by simp
        then have "calculateCustomerMetrics c (Some os) ?d = Inr m'"
          using calc calculateCustomerMetrics_customer[OF ids, of "Some os" ?d] by simp
        with m show "m' = m" by simp
      qed
      have "m \<in> set (customer_metrics_tbl w')"
        unfolding tbl using mem uniq by (rule foldl_upsert_has)
      then show ?thesis using Some ex m by auto
    qed
    with row show ?thesis by blast
  qed
  show ?thesis using each unfolding w'_def by blast
qed

theorem C3_metrics_for_customers_with_orders_witness:
  "fault pipeline_0 = (\<lambda>n. None)
   \<and> customersQuery ''shopify'' world_two_orders_today
       = [(customer_1, Some [order_2025_01_01_a, order_2025_01_01_b]), (customer_2, None)]
   \<and> fst (calculateMetrics pipeline_0 no_data ''shopify'' world_two_orders_today)
       = Inl (Error (invalid_numeric ''0100.0050.00''))
   \<and> (\<exists>m \<in> set (customer_metrics_tbl
                   (snd (calculateMetrics pipeline_0 no_data ''shopify'' world_two_orders_today))).
         calculateCustomerMetrics customer_1 (Some [order_2025_01_01_a, order_2025_01_01_b])
           1735689600000 = Inr m)
   \<and> filter (\<lambda>m. customer_id m = 2)
        (customer_metrics_tbl
           (snd (calculateMetrics pipeline_0 no_data ''shopify'' world_two_orders_today))) = []"
proof -
  let ?w = world_two_orders_today
  let ?w' = "snd (calculateMetrics pipeline_0 no_data ''shopify'' ?w)"
  have acc: "accepts pipeline_0 (queries ?w) (metrics_statements ''shopify'' ?w)"
    by (simp add: accepts_def pipeline_0_def)
  have rows: "customersQuery ''shopify'' ?w
       = [(customer_1, Some [order_2025_01_01_a, order_2025_01_01_b]), (customer_2, None)]"
    by (simp add: customersQuery_def world_two_orders_today_def empty_world_def customer_1_def
        customer_2_def order_2025_01_01_a_def order_2025_01_01_b_def order_2024_01_01_def
        newDate_def Let_def)
  have d: "clock pipeline_0 (clock_reads ?w) = 1735689600000"
    by (simp add: pipeline_0_def world_two_orders_today_def empty_world_def)
  have cs: "customer_1 \<in> set (customers_tbl ?w)"
           "customer_2 \<in> set (customers_tbl ?w)"
           "cust_source_type customer_1 = ''shopify''" "cust_source_type customer_2 = ''shopify''"
           "customer_metrics_tbl ?w = []" "cust_id customer_2 = 2"
           "customer_1 \<noteq> customer_2"
    by (simp_all add: world_two_orders_today_def empty_world_def customer_1_def customer_2_def)
  note all = C3_metrics_for_customers_with_orders[OF acc, of no_data]
  have 1: "\<exists>m \<in> set (customer_metrics_tbl ?w').
               calculateCustomerMetrics customer_1 (Some [order_2025_01_01_a, order_2025_01_01_b])
                 1735689600000 = Inr m"
    using all[rule_format, OF cs(1) cs(3)] cs(7) by (auto simp: rows d)
  have 2: "filter (\<lambda>m. customer_id m = 2) (customer_metrics_tbl ?w') = []"
    using all[rule_format, OF cs(2) cs(4)] cs(5,6,7) by (auto simp: rows)
  have nf: "fault pipeline_0 = (\<lambda>n. None)"
    by (simp add: pipeline_0_def)
  show ?thesis using nf rows calculateMetrics_two_orders_rejected 1 2 by (simp only: simp_thms)
qed

subsection \<open>Connection failures\<close>

text \<open>
  \<^const>\<open>run\<close> is the loop over the three sources, between two readings of the clock.
\<close>

lemma run_run_sources:
  "run p =
     io_bind (now p) (\<lambda>startTime.
     io_bind (run_sources p [''shopify'', ''woocommerce'', ''commercetools''] no_results)
       (\<lambda>results. io_bind (now p) (\<lambda>endTime. io_return results)))"
  by (simp add: run_def Let_def set_result_def no_results_def io_bind_assoc io_bind_if cong: if_cong)

text \<open>
  With a failed connection test, \<^verbatim>\<open>runForSource\<close> goes to its \<^verbatim>\<open>catch\<close> block, which
  writes the log row. When the database accepts the insert, the result is returned.
\<close>

lemma runForSource_connection_failure:
  assumes c: "connectors p sourceType = Some connector"
    and t: "\<not> testConnection connector"
    and f: "fault p (queries w) = None"
  shows "\<exists>r w'. runForSource p sourceType w = (Inr r, w')
      \<and> \<not> success r
      \<and> status (run_log r) = ''failed''
      \<and> records_extracted (run_log r) = 0
      \<and> records_transformed (run_log r) = 0
      \<and> records_loaded (run_log r) = 0
      \<and> error_message (run_log r) = Some (''Failed to connect to '' @ sourceType)
      \<and> etl_logs_tbl w' = etl_logs_tbl w @ [run_log r]"
  using c t f
  by (simp add: runForSource_def io_bind_def now_def logETLRun_def pool_query_def
      io_return_def Let_def)

text \<open>
  When the database rejects the insert of the log row, \<^verbatim>\<open>logETLRun\<close> throws the
  database's error on; the \<^verbatim>\<open>catch\<close> block of \<^verbatim>\<open>runForSource\<close> does not guard its own
  call of it, so the error leaves \<^verbatim>\<open>runForSource\<close> with no log row written.
\<close>

lemma runForSource_log_rejected:
  assumes c: "connectors p sourceType = Some connector"
    and t: "\<not> testConnection connector"
    and f: "fault p (queries w) = Some msg"
  shows "\<exists>w'. runForSource p sourceType w = (Inl (Error msg), w') \<and> etl_logs_tbl w' = etl_logs_tbl w"
  using c t f
  by (simp add: runForSource_def io_bind_def now_def logETLRun_def pool_query_def
      io_return_def Let_def)

text \<open>
  When the database rejects no statement, every failure of a step of \<^verbatim>\<open>runForSource\<close>
  ends in the \<^verbatim>\<open>catch\<close> block and a returned result, so \<^verbatim>\<open>runForSource\<close> returns for
  every source, and \<^verbatim>\<open>run\<close> returns with an entry for every enabled source.
\<close>

lemma runForSource_returns:
  assumes nf: "\<And>n. fault p n = None"
  shows "\<exists>r w'. runForSource p sourceType w = (Inr r, w')"
  unfolding runForSource_def
  by (simp add: io_bind_def io_try_def now_def logETLRun_def pool_query_def io_return_def Let_def nf
      split: option.splits prod.splits sum.splits)

lemma runForSource_result:
  assumes nf: "\<And>n. fault p n = None"
  shows "\<exists>r w'. runForSource p sourceType w = (Inr r, w')
           \<and> (\<forall>connector. connectors p sourceType = Some connector \<longrightarrow>
                 \<not> testConnection connector \<longrightarrow> failed_to_connect sourceType r)"
proof (cases "\<exists>connector. connectors p sourceType = Some connector \<and> \<not> testConnection connector")
  case True
  then obtain connector where c: "connectors p sourceType = Some connector"
    and t: "\<not> testConnection connector" by blast
  from runForSource_connection_failure[OF c t nf, of w] show ?thesis
    by (auto simp: failed_to_connect_def)
next
  case False
  with runForSource_returns[of p sourceType w, OF nf] show ?thesis by auto
qed

lemma result_of_set_result:
  "result_of s (set_result s' r results) =
     (if s = s' \<and> s \<in> set source_names then Some r else result_of s results)"
  by (auto simp: result_of_def set_result_def source_names_def)

lemma run_sources_results:
  assumes nf: "\<And>n. fault p n = None"
  shows "\<exists>results' w'. run_sources p srcs results w = (Inr results', w')
           \<and> (\<forall>s. s \<notin> set srcs \<longrightarrow> result_of s results' = result_of s results)
           \<and> (\<forall>s \<in> set srcs. s \<in> set source_names \<longrightarrow> enabled p s \<longrightarrow>
                (\<exists>r. result_of s results' = Some r
                   \<and> (\<forall>connector. connectors p s = Some connector \<longrightarrow>
                         \<not> testConnection connector \<longrightarrow> failed_to_connect s r)))"
proof (induction srcs arbitrary: results w)
  case Nil
  then show ?case by (simp add: io_return_def)
next
  case (Cons src srcs)
  show ?case
  proof (cases "enabled p src")
    case False
    from Cons.IH[of results w] obtain results' w' where
      run: "run_sources p srcs results w = (Inr results', w')" and
      frame: "\<forall>s. s \<notin> set srcs \<longrightarrow> result_of s results' = result_of s results" and
      each: "\<forall>s \<in> set srcs. s \<in> set source_names \<longrightarrow> enabled p s \<longrightarrow>
                (\<exists>r. result_of s results' = Some r
                   \<and> (\<forall>connector. connectors p s = Some connector \<longrightarrow>
                         \<not> testConnection connector \<longrightarrow> failed_to_connect s r))"
      by blast
    show ?thesis using False run frame each by auto
  next
    case True
    from runForSource_result[of p src w, OF nf] obtain r w1 where
      r: "runForSource p src w = (Inr r, w1)" and
      fc: "\<forall>connector. connectors p src = Some connector \<longrightarrow>
                 \<not> testConnection connector \<longrightarrow> failed_to_connect src r"
      by blast
    from Cons.IH[of "set_result src r results" w1] obtain results' w' where
      run: "run_sources p srcs (set_result src r results) w1 = (Inr results', w')" and
      frame: "\<forall>s. s \<notin> set srcs \<longrightarrow> result_of s results' = result_of s (set_result src r results)" and
      each: "\<forall>s \<in> set srcs. s \<in> set source_names \<longrightarrow> enabled p s \<longrightarrow>
                (\<exists>r. result_of s results' = Some r
                   \<and> (\<forall>connector. connectors p s = Some connector \<longrightarrow>
                         \<not> testConnection connector \<longrightarrow> failed_to_connect s r))"
      by blast
    have whole: "run_sources p (src # srcs) results w = (Inr results', w')"
      using True r run by (simp add: io_bind_def)
    have f': "\<forall>s. s \<notin> set (src # srcs) \<longrightarrow> result_of s results' = result_of s results"
      using frame by (simp add: result_of_set_result)
    have e': "\<exists>r'. result_of s results' = Some r'
                   \<and> (\<forall>connector. connectors p s = Some connector \<longrightarrow>
                         \<not> testConnection connector \<longrightarrow> failed_to_connect s r')"
      if s: "s \<in> set (src # srcs)" "s \<in> set source_names" "enabled p s" for s
    proof (cases "s \<in> set srcs")
      case True
      then show ?thesis using each s by blast
    next
      case False
      then have "s = src" using s by simp
      then have "result_of s results' = Some r"
        using frame False s by (simp add: result_of_set_result)
      then show ?thesis using fc \<open>s = src\<close> by blast
    qed
    show ?thesis using whole f' e' by blast
  qed
qed

lemma run_results:
  assumes nf: "\<And>n. fault p n = None"
  shows "\<exists>results w'. run p w = (Inr results, w')
           \<and> (\<forall>s \<in> set source_names. enabled p s \<longrightarrow>
                (\<exists>r. result_of s results = Some r
                   \<and> (\<forall>connector. connectors p s = Some connector \<longrightarrow>
                         \<not> testConnection connector \<longrightarrow> failed_to_connect s r)))"
proof -
  let ?w1 = "w\<lparr> clock_reads := clock_reads w + 1 \<rparr>"
  from run_sources_results[of p source_names no_results ?w1, OF nf] obtain results w' where
    run: "run_sources p source_names no_results ?w1 = (Inr results, w')" and
    each: "\<forall>s \<in> set source_names. s \<in> set source_names \<longrightarrow> enabled p s \<longrightarrow>
                (\<exists>r. result_of s results = Some r
                   \<and> (\<forall>connector. connectors p s = Some connector \<longrightarrow>
                         \<not> testConnection connector \<longrightarrow> failed_to_connect s r))"
    by blast
  have "run p w = (Inr results, w'\<lparr> clock_reads := clock_reads w' + 1 \<rparr>)"
    using run unfolding run_run_sources source_names_def
    by (simp add: io_bind_def now_def io_return_def)
  then show ?thesis using each by blast
qed

text \<open>
  An example of the whole of \<^verbatim>\<open>run\<close>: on the empty database, with Shopify's connection
  test failing and WooCommerce's connector working, both sources are run; the first
  result is a failure, the second a success, and both log rows are written.
\<close>

lemma run_pipeline_1:
  "\<exists>r1 r2 w'. run pipeline_1 empty_world
      = (Inr \<lparr> shopify = Some r1, woocommerce = Some r2, commercetools = None \<rparr>, w')
      \<and> \<not> success r1 \<and> success r2 \<and> etl_logs_tbl w' = [run_log r1, run_log r2]"
  by (simp add: run_def runForSource_def io_bind_def io_try_def now_def logETLRun_def pool_query_def
        io_return_def Let_def pipeline_1_def pipeline_0_def empty_world_def failing_connector_def
        working_connector_def getLastETLRun_def io_catch_def extractData_def io_lift_def
        transformData_def loadData_def upsertCustomerBatch_def upsertProductBatch_def
        upsert_batch_def empty_batch_def updateCustomerPurchaseDates_def calculateMetrics_def
        customersQuery_def ordersQuery_def upsertDailyMetrics_def calculateDailyMetrics_def
        numeric_parameter_def)




end
